theory Spec2Isabelle
  imports Complex_Main "HOL-Library.AList"
begin

section \<open>Python values\<close>

text \<open>
  The values that flow through \<^verbatim>\<open>ifctester/facet.py\<close>: attribute and property values
  of model elements, the literals of a rule document, and the structured fragments
  (nested lists and dictionaries) that facets and restrictions are parsed from and
  serialised to. Dictionaries keep their insertion order and are keyed by strings.
  A Python float is modelled by the rational it denotes (finite floats, exact
  arithmetic); \<open>VEntity\<close> is a reference to an \<^verbatim>\<open>ifcopenshell.entity_instance\<close>.
\<close>

datatype pyval =
    VNone
  | VBool bool
  | VInt int
  | VFloat rat
  | VStr string
  | VTuple "pyval list"
  | VList "pyval list"
  | VDict "(string \<times> pyval) list"
  | VEntity nat

text \<open>Exceptions are values: a computation returns \<open>Inl\<close> of the exception it raises.\<close>

datatype exn =
    ValueError
  | KeyError
  | TypeError
  | AttributeError
  | IndexError
  | UnboundLocalError
  | RegexError
  | Exception string

text \<open>\<^verbatim>\<open>type(v).__name__\<close>\<close>

fun type_name :: "pyval \<Rightarrow> string" where
  "type_name VNone = ''NoneType''"
| "type_name (VBool _) = ''bool''"
| "type_name (VInt _) = ''int''"
| "type_name (VFloat _) = ''float''"
| "type_name (VStr _) = ''str''"
| "type_name (VTuple _) = ''tuple''"
| "type_name (VList _) = ''list''"
| "type_name (VDict _) = ''dict''"
| "type_name (VEntity _) = ''entity_instance''"

text \<open>\<^verbatim>\<open>bool(v)\<close>: an entity instance has a length, the number of its attributes, which
  is positive for every entity of the IFC schemas.\<close>

fun truthy :: "pyval \<Rightarrow> bool" where
  "truthy VNone = False"
| "truthy (VBool b) = b"
| "truthy (VInt i) = (i \<noteq> 0)"
| "truthy (VFloat q) = (q \<noteq> 0)"
| "truthy (VStr s) = (s \<noteq> [])"
| "truthy (VTuple xs) = (xs \<noteq> [])"
| "truthy (VList xs) = (xs \<noteq> [])"
| "truthy (VDict d) = (d \<noteq> [])"
| "truthy (VEntity _) = True"

text \<open>The number a bool, int or float stands for in arithmetic and comparison.\<close>

fun py_num :: "pyval \<Rightarrow> rat option" where
  "py_num (VBool b) = Some (if b then 1 else 0)"
| "py_num (VInt i) = Some (of_int i)"
| "py_num (VFloat q) = Some q"
| "py_num _ = None"

text \<open>\<^verbatim>\<open>a == b\<close> on values: numbers compare by value across bool, int and float,
  sequences element by element, dictionaries key by key whatever their order.\<close>

fun py_eq :: "pyval \<Rightarrow> pyval \<Rightarrow> bool"
  and py_eq_seq :: "pyval list \<Rightarrow> pyval list \<Rightarrow> bool"
  and py_eq_items :: "(string \<times> pyval) list \<Rightarrow> (string \<times> pyval) list \<Rightarrow> bool" where
  "py_eq VNone b = (b = VNone)"
| "py_eq (VBool x) b = (py_num b = Some (if x then 1 else 0))"
| "py_eq (VInt i) b = (py_num b = Some (of_int i))"
| "py_eq (VFloat q) b = (py_num b = Some q)"
| "py_eq (VStr s) b = (b = VStr s)"
| "py_eq (VTuple xs) b = (case b of VTuple ys \<Rightarrow> py_eq_seq xs ys | _ \<Rightarrow> False)"
| "py_eq (VList xs) b = (case b of VList ys \<Rightarrow> py_eq_seq xs ys | _ \<Rightarrow> False)"
| "py_eq (VDict d) b =
     (case b of VDict e \<Rightarrow> length d = length e \<and> py_eq_items d e | _ \<Rightarrow> False)"
| "py_eq (VEntity i) b = (b = VEntity i)"
| "py_eq_seq [] ys = (ys = [])"
| "py_eq_seq (x # xs) ys =
     (case ys of [] \<Rightarrow> False | y # ys' \<Rightarrow> py_eq x y \<and> py_eq_seq xs ys')"
| "py_eq_items [] e = True"
| "py_eq_items (kv # d) e =
     (case map_of e (fst kv) of
        None \<Rightarrow> False
      | Some w \<Rightarrow> py_eq (snd kv) w \<and> py_eq_items d e)"

text \<open>\<^verbatim>\<open>x in xs\<close> for a list.\<close>

definition py_in :: "pyval \<Rightarrow> pyval list \<Rightarrow> bool" where
  "py_in x xs = list_ex (\<lambda>y. py_eq y x) xs"

subsection \<open>Ordering\<close>

datatype cmpop = Lt | Le | Gt | Ge

definition cmp_rat :: "cmpop \<Rightarrow> rat \<Rightarrow> rat \<Rightarrow> bool" where
  "cmp_rat op a b = (case op of Lt \<Rightarrow> a < b | Le \<Rightarrow> a \<le> b | Gt \<Rightarrow> a > b | Ge \<Rightarrow> a \<ge> b)"

text \<open>Strings order by code point, position by position, a proper prefix first.\<close>

fun str_cmp :: "string \<Rightarrow> string \<Rightarrow> int" where
  "str_cmp [] [] = 0"
| "str_cmp [] (d # t) = - 1"
| "str_cmp (c # s) [] = 1"
| "str_cmp (c # s) (d # t) =
     (if (of_char c :: nat) < of_char d then - 1
      else if (of_char d :: nat) < of_char c then 1
      else str_cmp s t)"

text \<open>\<^verbatim>\<open>a < b\<close>, \<^verbatim>\<open>a <= b\<close>, \<^verbatim>\<open>a > b\<close>, \<^verbatim>\<open>a >= b\<close>: numbers with numbers, strings with
  strings, tuples with tuples and lists with lists (at the first position where they
  differ, else by length); any other pair raises TypeError.\<close>

fun py_cmp :: "cmpop \<Rightarrow> pyval \<Rightarrow> pyval \<Rightarrow> exn + bool"
  and seq_cmp :: "cmpop \<Rightarrow> pyval list \<Rightarrow> pyval list \<Rightarrow> exn + bool" where
  "py_cmp op (VStr s) b =
     (case b of VStr t \<Rightarrow> Inr (cmp_rat op (of_int (str_cmp s t)) 0) | _ \<Rightarrow> Inl TypeError)"
| "py_cmp op (VTuple xs) b = (case b of VTuple ys \<Rightarrow> seq_cmp op xs ys | _ \<Rightarrow> Inl TypeError)"
| "py_cmp op (VList xs) b = (case b of VList ys \<Rightarrow> seq_cmp op xs ys | _ \<Rightarrow> Inl TypeError)"
| "py_cmp op VNone b = Inl TypeError"
| "py_cmp op (VDict d) b = Inl TypeError"
| "py_cmp op (VEntity i) b = Inl TypeError"
| "py_cmp op (VBool x) b =
     (case py_num b of Some q \<Rightarrow> Inr (cmp_rat op (if x then 1 else 0) q) | None \<Rightarrow> Inl TypeError)"
| "py_cmp op (VInt i) b =
     (case py_num b of Some q \<Rightarrow> Inr (cmp_rat op (of_int i) q) | None \<Rightarrow> Inl TypeError)"
| "py_cmp op (VFloat p) b =
     (case py_num b of Some q \<Rightarrow> Inr (cmp_rat op p q) | None \<Rightarrow> Inl TypeError)"
| "seq_cmp op [] ys = Inr (cmp_rat op 0 (of_nat (length ys)))"
| "seq_cmp op (x # xs) ys =
     (case ys of
        [] \<Rightarrow> Inr (cmp_rat op 1 0)
      | y # ys' \<Rightarrow> if py_eq x y then seq_cmp op xs ys' else py_cmp op x y)"

subsection \<open>Strings\<close>

text \<open>\<^verbatim>\<open>str.lower\<close> and \<^verbatim>\<open>str.upper\<close> on the ASCII letters; the names of the IFC schema
  and the literals of a rule document are ASCII.\<close>

definition lower_char :: "char \<Rightarrow> char" where
  "lower_char c =
     (case map_of (zip ''ABCDEFGHIJKLMNOPQRSTUVWXYZ'' ''abcdefghijklmnopqrstuvwxyz'') c of
        Some d \<Rightarrow> d | None \<Rightarrow> c)"

definition upper_char :: "char \<Rightarrow> char" where
  "upper_char c =
     (case map_of (zip ''abcdefghijklmnopqrstuvwxyz'' ''ABCDEFGHIJKLMNOPQRSTUVWXYZ'') c of
        Some d \<Rightarrow> d | None \<Rightarrow> c)"

definition lower :: "string \<Rightarrow> string" where
  "lower s = map lower_char s"

definition upper :: "string \<Rightarrow> string" where
  "upper s = map upper_char s"

text \<open>\<^verbatim>\<open>str(n)\<close> for an integer.\<close>

fun str_nat :: "nat \<Rightarrow> string" where
  "str_nat n =
     (if n < 10 then [''0123456789'' ! n]
      else str_nat (n div 10) @ [''0123456789'' ! (n mod 10)])"

declare str_nat.simps [simp del]

definition str_int :: "int \<Rightarrow> string" where
  "str_int i = (if i < 0 then CHR ''-'' # str_nat (nat (- i)) else str_nat (nat i))"

text \<open>\<^verbatim>\<open>s[-n:]\<close> and \<^verbatim>\<open>s[a:b]\<close> on a string.\<close>

definition suffix_of :: "nat \<Rightarrow> string \<Rightarrow> string" where
  "suffix_of n s = drop (length s - n) s"

definition slice :: "nat \<Rightarrow> nat \<Rightarrow> string \<Rightarrow> string" where
  "slice a b s = take (b - a) (drop a s)"

section \<open>The Python runtime\<close>

text \<open>
  What the source takes from the interpreter and from its libraries, and what this
  development does not define, is a parameter of every definition below:
  \<^item> \<open>float_of_str\<close>, \<open>int_of_str\<close>: \<^verbatim>\<open>float(s)\<close> and \<^verbatim>\<open>int(s)\<close> on a string, \<open>None\<close>
    where they raise ValueError;
  \<^item> \<open>repr_of\<close>: \<^verbatim>\<open>str(v)\<close> for a float, a container or an entity instance;
  \<^item> \<open>dict_of\<close>: \<^verbatim>\<open>dict(v)\<close> for a non-empty sequence;
  \<^item> \<open>re_fullmatch\<close>: \<^verbatim>\<open>re.compile(identities.translate_pattern(p)).fullmatch(v) is not None\<close>,
    with the exception any of the three steps raises;
  \<^item> \<open>eval_truth\<close>: the truth value of \<^verbatim>\<open>eval(e)\<close>, or the exception it raises
    (the evaluated expression is taken to have no effect of its own);
  \<^item> \<open>entity_len\<close>: \<^verbatim>\<open>len(e)\<close> of an entity instance, the number of its attributes.
\<close>

record runtime =
  float_of_str :: "string \<Rightarrow> rat option"
  int_of_str :: "string \<Rightarrow> int option"
  repr_of :: "pyval \<Rightarrow> string"
  dict_of :: "pyval \<Rightarrow> exn + pyval"
  re_fullmatch :: "pyval \<Rightarrow> pyval \<Rightarrow> exn + bool"
  eval_truth :: "string \<Rightarrow> exn + bool"
  entity_len :: "nat \<Rightarrow> nat"

text \<open>\<^verbatim>\<open>str(v)\<close>\<close>

definition py_str :: "runtime \<Rightarrow> pyval \<Rightarrow> string" where
  "py_str rt v =
     (case v of
        VNone \<Rightarrow> ''None''
      | VBool b \<Rightarrow> (if b then ''True'' else ''False'')
      | VInt i \<Rightarrow> str_int i
      | VStr s \<Rightarrow> s
      | _ \<Rightarrow> repr_of rt v)"

text \<open>The constructors \<^verbatim>\<open>float\<close>, \<^verbatim>\<open>int\<close>, \<^verbatim>\<open>tuple\<close>, \<^verbatim>\<open>list\<close> and \<^verbatim>\<open>dict\<close>.\<close>

definition py_float :: "runtime \<Rightarrow> pyval \<Rightarrow> exn + pyval" where
  "py_float rt x =
     (case x of
        VStr s \<Rightarrow> (case float_of_str rt s of Some q \<Rightarrow> Inr (VFloat q) | None \<Rightarrow> Inl ValueError)
      | _ \<Rightarrow> (case py_num x of Some q \<Rightarrow> Inr (VFloat q) | None \<Rightarrow> Inl TypeError))"

definition py_int :: "runtime \<Rightarrow> pyval \<Rightarrow> exn + pyval" where
  "py_int rt x =
     (case x of
        VStr s \<Rightarrow> (case int_of_str rt s of Some i \<Rightarrow> Inr (VInt i) | None \<Rightarrow> Inl ValueError)
      | VBool b \<Rightarrow> Inr (VInt (if b then 1 else 0))
      | VInt i \<Rightarrow> Inr (VInt i)
      | VFloat q \<Rightarrow> Inr (VInt (if 0 \<le> q then \<lfloor>q\<rfloor> else \<lceil>q\<rceil>))
      | _ \<Rightarrow> Inl TypeError)"

text \<open>\<^verbatim>\<open>iter(v)\<close>: the elements a \<^verbatim>\<open>for\<close> loop or a comprehension runs over.\<close>

definition py_iter :: "pyval \<Rightarrow> exn + pyval list" where
  "py_iter x =
     (case x of
        VStr s \<Rightarrow> Inr (map (\<lambda>c. VStr [c]) s)
      | VTuple xs \<Rightarrow> Inr xs
      | VList xs \<Rightarrow> Inr xs
      | VDict d \<Rightarrow> Inr (map (\<lambda>kv. VStr (fst kv)) d)
      | _ \<Rightarrow> Inl TypeError)"

definition py_tuple :: "pyval \<Rightarrow> exn + pyval" where
  "py_tuple x = (case py_iter x of Inl e \<Rightarrow> Inl e | Inr xs \<Rightarrow> Inr (VTuple xs))"

definition py_list :: "pyval \<Rightarrow> exn + pyval" where
  "py_list x = (case py_iter x of Inl e \<Rightarrow> Inl e | Inr xs \<Rightarrow> Inr (VList xs))"

definition py_dict :: "runtime \<Rightarrow> pyval \<Rightarrow> exn + pyval" where
  "py_dict rt x =
     (case x of
        VDict d \<Rightarrow> Inr (VDict d)
      | VStr s \<Rightarrow> (if s = [] then Inr (VDict []) else Inl ValueError)
      | VTuple xs \<Rightarrow> (if xs = [] then Inr (VDict []) else dict_of rt x)
      | VList xs \<Rightarrow> (if xs = [] then Inr (VDict []) else dict_of rt x)
      | _ \<Rightarrow> Inl TypeError)"

text \<open>\<^verbatim>\<open>builtins.__dict__\<close>, at the type names of the values above; a name it does not
  hold (\<^verbatim>\<open>NoneType\<close>, \<^verbatim>\<open>entity_instance\<close>) is a KeyError at the lookup.\<close>

definition builtins_dict :: "runtime \<Rightarrow> string \<Rightarrow> (pyval \<Rightarrow> exn + pyval) option" where
  "builtins_dict rt n =
     (if n = ''bool'' then Some (\<lambda>x. Inr (VBool (truthy x)))
      else if n = ''int'' then Some (py_int rt)
      else if n = ''float'' then Some (py_float rt)
      else if n = ''str'' then Some (\<lambda>x. Inr (VStr (py_str rt x)))
      else if n = ''tuple'' then Some py_tuple
      else if n = ''list'' then Some py_list
      else if n = ''dict'' then Some (py_dict rt)
      else None)"

section \<open>cast_to_value\<close>

text \<open>\<^verbatim>\<open>try: ... except ValueError: pass\<close>: a ValueError ends the function with its
  implicit \<^verbatim>\<open>None\<close>; any other exception passes through.\<close>

definition except_ValueError :: "exn + pyval \<Rightarrow> exn + pyval" where
  "except_ValueError r = (case r of Inl ValueError \<Rightarrow> Inr VNone | _ \<Rightarrow> r)"

definition cast_to_value :: "runtime \<Rightarrow> pyval \<Rightarrow> pyval \<Rightarrow> exn + pyval" where
  "cast_to_value rt from_value to_value =
     except_ValueError
       (let target_type = type_name to_value in
        if target_type = ''int'' then py_float rt from_value
        else if target_type = ''bool'' \<and> py_eq from_value (VStr ''TRUE'') then Inr (VBool True)
        else if target_type = ''bool'' \<and> py_eq from_value (VStr ''FALSE'') then Inr (VBool False)
        else (case builtins_dict rt target_type of
                None \<Rightarrow> Inl KeyError
              | Some ctor \<Rightarrow> ctor from_value))"

section \<open>Sequencing computations that may raise\<close>

fun mapM :: "('a \<Rightarrow> exn + 'b) \<Rightarrow> 'a list \<Rightarrow> exn + 'b list" where
  "mapM f [] = Inr []"
| "mapM f (x # xs) =
     (case f x of
        Inl e \<Rightarrow> Inl e
      | Inr y \<Rightarrow> (case mapM f xs of Inl e \<Rightarrow> Inl e | Inr ys \<Rightarrow> Inr (y # ys)))"

fun foldM :: "('a \<Rightarrow> 's \<Rightarrow> exn + 's) \<Rightarrow> 'a list \<Rightarrow> 's \<Rightarrow> exn + 's" where
  "foldM f [] s = Inr s"
| "foldM f (x # xs) s = (case f x s of Inl e \<Rightarrow> Inl e | Inr s' \<Rightarrow> foldM f xs s')"

text \<open>\<^verbatim>\<open>d[k]\<close> with a string key: only a dictionary can be subscripted by a string.\<close>

definition subscript :: "pyval \<Rightarrow> string \<Rightarrow> exn + pyval" where
  "subscript d k =
     (case d of
        VDict items \<Rightarrow> (case map_of items k of Some v \<Rightarrow> Inr v | None \<Rightarrow> Inl KeyError)
      | _ \<Rightarrow> Inl TypeError)"

text \<open>\<^verbatim>\<open>x[3:]\<close>\<close>

definition slice_from3 :: "pyval \<Rightarrow> exn + pyval" where
  "slice_from3 x =
     (case x of
        VStr s \<Rightarrow> Inr (VStr (drop 3 s))
      | VTuple xs \<Rightarrow> Inr (VTuple (drop 3 xs))
      | VList xs \<Rightarrow> Inr (VList (drop 3 xs))
      | _ \<Rightarrow> Inl TypeError)"

text \<open>\<^verbatim>\<open>len(v)\<close>\<close>

definition py_len :: "runtime \<Rightarrow> pyval \<Rightarrow> exn + nat" where
  "py_len rt x =
     (case x of
        VStr s \<Rightarrow> Inr (length s)
      | VTuple xs \<Rightarrow> Inr (length xs)
      | VList xs \<Rightarrow> Inr (length xs)
      | VDict d \<Rightarrow> Inr (length d)
      | VEntity i \<Rightarrow> Inr (entity_len rt i)
      | _ \<Rightarrow> Inl TypeError)"

section \<open>Restriction\<close>

text \<open>
  A \<^verbatim>\<open>Restriction\<close> object is its three attributes \<^verbatim>\<open>type\<close>, \<^verbatim>\<open>base\<close> and \<^verbatim>\<open>options\<close>.
  An attribute that was never assigned is \<open>None\<close> here, and reading it raises
  AttributeError.
\<close>

record restriction =
  type :: "pyval option"
  base :: "pyval option"
  options :: "pyval option"

definition isinstance_str :: "pyval \<Rightarrow> bool" where
  "isinstance_str x = (case x of VStr _ \<Rightarrow> True | _ \<Rightarrow> False)"

definition isinstance_list :: "pyval \<Rightarrow> bool" where
  "isinstance_list x = (case x of VList _ \<Rightarrow> True | _ \<Rightarrow> False)"

definition isinstance_dict :: "pyval \<Rightarrow> bool" where
  "isinstance_dict x = (case x of VDict _ \<Rightarrow> True | _ \<Rightarrow> False)"

definition isinstance_float :: "pyval \<Rightarrow> bool" where
  "isinstance_float x = (case x of VFloat _ \<Rightarrow> True | _ \<Rightarrow> False)"

definition isinstance_entity :: "pyval \<Rightarrow> bool" where
  "isinstance_entity x = (case x of VEntity _ \<Rightarrow> True | _ \<Rightarrow> False)"

text \<open>\<^verbatim>\<open>Restriction.__init__(self, options="", type="pattern", base="string")\<close>: the
  object it leaves behind, or the exception it raises. A \<^verbatim>\<open>type\<close> outside the list of
  the first test assigns nothing.\<close>

definition Restriction_init :: "pyval \<Rightarrow> pyval \<Rightarrow> pyval \<Rightarrow> exn + restriction" where
  "Restriction_init opts ty bs =
     (if py_in ty [VStr ''enumeration'', VStr ''pattern'', VStr ''bounds''] then
        (if (py_eq ty (VStr ''enumeration'') \<and> isinstance_list opts)
            \<or> (py_eq ty (VStr ''bounds'') \<and> isinstance_dict opts)
            \<or> (py_eq ty (VStr ''pattern'') \<and> isinstance_str opts)
         then Inr \<lparr>type = Some ty, base = Some bs, options = Some opts\<rparr>
         else Inl (Exception ''Options were not properly defined.''))
      else Inr \<lparr>type = None, base = None, options = None\<rparr>)"

text \<open>\<^verbatim>\<open>Restriction()\<close>, all arguments defaulted.\<close>

definition Restriction_default :: "restriction" where
  "Restriction_default =
     \<lparr>type = Some (VStr ''pattern''), base = Some (VStr ''string''), options = Some (VStr [])\<rparr>"

subsection \<open>parse\<close>

text \<open>One round of the loop \<^verbatim>\<open>for n in ids_dict\<close> of \<^verbatim>\<open>Restriction.parse\<close>. In the
  \<^verbatim>\<open>clusive\<close> branch \<^verbatim>\<open>self.options\<close> has just been set to a dictionary, which has no
  \<^verbatim>\<open>append\<close>; in the \<^verbatim>\<open>ength\<close> branch \<^verbatim>\<open>self.options\<close> is whatever it was before.\<close>

definition parse_key :: "runtime \<Rightarrow> pyval \<Rightarrow> string \<Rightarrow> restriction \<Rightarrow> exn + restriction" where
  "parse_key rt ids_dict n self =
     (if n = ''enumeration'' then
        (case subscript ids_dict n of
           Inl e \<Rightarrow> Inl e
         | Inr xs \<Rightarrow>
            (case py_iter xs of
               Inl e \<Rightarrow> Inl e
             | Inr elems \<Rightarrow>
                (case mapM (\<lambda>x. subscript x ''@value'') elems of
                   Inl e \<Rightarrow> Inl e
                 | Inr vs \<Rightarrow>
                     Inr (self\<lparr>type := Some (VStr ''enumeration''), options := Some (VList vs)\<rparr>))))
      else if suffix_of 7 n = ''clusive'' then Inl AttributeError
      else if suffix_of 5 n = ''ength'' then
        (case options self of
           Some (VList xs) \<Rightarrow>
             (let op = (if slice 3 6 n = ''min'' then ''>=''
                        else if slice 3 6 n = ''max'' then ''<='' else ''=='') in
              case subscript ids_dict n of
                Inl e \<Rightarrow> Inl e
              | Inr entry \<Rightarrow>
                 (case subscript entry ''@value'' of
                    Inl e \<Rightarrow> Inl e
                  | Inr v \<Rightarrow>
                      Inr (self\<lparr>type := Some (VStr ''length''),
                                options := Some (VList (xs @ [VStr (op @ py_str rt v)]))\<rparr>)))
         | _ \<Rightarrow> Inl AttributeError)
      else if n = ''pattern'' then
        (case subscript ids_dict n of
           Inl e \<Rightarrow> Inl e
         | Inr entry \<Rightarrow>
            (case subscript entry ''@value'' of
               Inl e \<Rightarrow> Inl e
             | Inr v \<Rightarrow> Inr (self\<lparr>type := Some (VStr ''pattern''), options := Some v\<rparr>)))
      else Inr self)"

text \<open>\<^verbatim>\<open>Restriction.parse(self, ids_dict)\<close>\<close>

definition Restriction_parse :: "runtime \<Rightarrow> restriction \<Rightarrow> pyval \<Rightarrow> exn + restriction" where
  "Restriction_parse rt self ids_dict =
     (if \<not> truthy ids_dict then Inr self
      else
        (case (case subscript ids_dict ''@base'' of
                 Inl KeyError \<Rightarrow> Inr (VStr ''String'')
               | Inl e \<Rightarrow> Inl e
               | Inr b \<Rightarrow> slice_from3 b) of
           Inl e \<Rightarrow> Inl e
         | Inr b \<Rightarrow>
            (case ids_dict of
               VDict items \<Rightarrow> foldM (parse_key rt ids_dict) (map fst items) (self\<lparr>base := Some b\<rparr>)
             | _ \<Rightarrow> Inl TypeError)))"

subsection \<open>asdict\<close>

definition enumeration_entry :: "pyval \<Rightarrow> (string \<times> pyval) list \<Rightarrow> (string \<times> pyval) list" where
  "enumeration_entry option rest_dict =
     (case map_of rest_dict ''xs:enumeration'' of
        Some (VList entries) \<Rightarrow>
          AList.update ''xs:enumeration'' (VList (entries @ [VDict [(''@value'', option)]])) rest_dict
      | _ \<Rightarrow> AList.update ''xs:enumeration'' (VList [VDict [(''@value'', option)]]) rest_dict)"

definition bounds_entry ::
  "runtime \<Rightarrow> string \<times> pyval \<Rightarrow> (string \<times> pyval) list \<Rightarrow> (string \<times> pyval) list" where
  "bounds_entry rt kv rest_dict =
     AList.update (''xs:'' @ fst kv)
       (VList [VDict [(''@value'', VStr (py_str rt (snd kv))), (''@fixed'', VBool False)]])
       rest_dict"

text \<open>\<^verbatim>\<open>Restriction.asdict(self)\<close>. There is no branch for the type \<^verbatim>\<open>length\<close>.\<close>

definition Restriction_asdict :: "runtime \<Rightarrow> restriction \<Rightarrow> exn + pyval" where
  "Restriction_asdict rt self =
     (case base self of
        None \<Rightarrow> Inl AttributeError
      | Some (VStr b) \<Rightarrow>
         (let rest_dict = [(''@base'', VStr (''xs:'' @ b))] in
          case type self of
            None \<Rightarrow> Inl AttributeError
          | Some ty \<Rightarrow>
             if py_eq ty (VStr ''enumeration'') then
               (case options self of
                  None \<Rightarrow> Inl AttributeError
                | Some opts \<Rightarrow>
                   (case py_iter opts of
                      Inl e \<Rightarrow> Inl e
                    | Inr os \<Rightarrow> Inr (VDict (fold enumeration_entry os rest_dict))))
             else if py_eq ty (VStr ''bounds'') then
               (case options self of
                  None \<Rightarrow> Inl AttributeError
                | Some (VDict d) \<Rightarrow> Inr (VDict (fold (bounds_entry rt) d rest_dict))
                | Some opts \<Rightarrow>
                   (case py_iter opts of
                      Inl e \<Rightarrow> Inl e
                    | Inr [] \<Rightarrow> Inr (VDict rest_dict)
                    | Inr (x # xs) \<Rightarrow> Inl TypeError))
             else if py_eq ty (VStr ''pattern'') then
               (case options self of
                  None \<Rightarrow> Inl AttributeError
                | Some opts \<Rightarrow>
                    Inr (VDict (AList.update ''xs:pattern'' (VList [VDict [(''@value'', opts)]])
                                  rest_dict)))
             else Inr (VDict rest_dict))
      | Some _ \<Rightarrow> Inl TypeError)"

subsection \<open>Matching a value: __eq__\<close>

text \<open>\<^verbatim>\<open>[x.lower() for x in self.options]\<close>: only a string has \<^verbatim>\<open>lower\<close>.\<close>

definition lower_all :: "pyval \<Rightarrow> exn + pyval list" where
  "lower_all opts =
     (case py_iter opts of
        Inl e \<Rightarrow> Inl e
      | Inr xs \<Rightarrow>
          mapM (\<lambda>x. case x of VStr s \<Rightarrow> Inr (VStr (lower s)) | _ \<Rightarrow> Inl AttributeError) xs)"

text \<open>One round of the loop over \<^verbatim>\<open>self.options.keys()\<close> of the \<^verbatim>\<open>bounds\<close> branch:
  \<open>kv\<close> is the key \<^verbatim>\<open>sign\<close> with \<^verbatim>\<open>self.options[sign]\<close>, the state is \<^verbatim>\<open>result\<close>.\<close>

definition bounds_step :: "pyval \<Rightarrow> string \<times> pyval \<Rightarrow> bool \<Rightarrow> exn + bool" where
  "bounds_step other kv result =
     (let violated = (\<lambda>op. case py_cmp op other (snd kv) of
                              Inl e \<Rightarrow> Inl e
                            | Inr c \<Rightarrow> Inr (if c then False else result)) in
      if fst kv = ''minInclusive'' then violated Lt
      else if fst kv = ''maxInclusive'' then violated Gt
      else if fst kv = ''minExclusive'' then violated Le
      else if fst kv = ''maxExclusive'' then violated Ge
      else Inr result)"

text \<open>One round of the loop of the \<^verbatim>\<open>length\<close> branch:
  \<^verbatim>\<open>if eval(str(len(other)) + op): result = True\<close>.\<close>

definition length_step :: "runtime \<Rightarrow> pyval \<Rightarrow> pyval \<Rightarrow> bool \<Rightarrow> exn + bool" where
  "length_step rt other op result =
     (case py_len rt other of
        Inl e \<Rightarrow> Inl e
      | Inr n \<Rightarrow>
         (case op of
            VStr s \<Rightarrow>
              (case eval_truth rt (str_nat n @ s) of
                 Inl e \<Rightarrow> Inl e
               | Inr b \<Rightarrow> Inr (if b then True else result))
          | _ \<Rightarrow> Inl TypeError))"

text \<open>The body of \<^verbatim>\<open>Restriction.__eq__\<close> under its guard: the branch for the
  restriction's type. It returns \<^verbatim>\<open>result\<close> and the restriction as the branch leaves it:
  the first branch assigns \<^verbatim>\<open>self.options\<close>.\<close>

definition match_by_type :: "runtime \<Rightarrow> restriction \<Rightarrow> pyval \<Rightarrow> exn + bool \<times> restriction" where
  "match_by_type rt self other =
     (case type self of
        None \<Rightarrow> Inl AttributeError
      | Some ty \<Rightarrow>
         if py_eq ty (VStr ''enumeration'') then
           (case base self of
              None \<Rightarrow> Inl AttributeError
            | Some b \<Rightarrow>
               (case options self of
                  None \<Rightarrow> Inl AttributeError
                | Some opts \<Rightarrow>
                   if py_eq b (VStr ''bool'') then
                     (case lower_all opts of
                        Inl e \<Rightarrow> Inl e
                      | Inr ls \<Rightarrow>
                          Inr (py_in (VStr (lower (py_str rt other))) ls,
                               self\<lparr>options := Some (VList ls)\<rparr>))
                   else
                     (case py_iter opts of
                        Inl e \<Rightarrow> Inl e
                      | Inr os \<Rightarrow>
                         (case mapM (\<lambda>x. cast_to_value rt x other) os of
                            Inl e \<Rightarrow> Inl e
                          | Inr cs \<Rightarrow> Inr (py_in other cs, self)))))
         else if py_eq ty (VStr ''bounds'') then
           (case options self of
              Some (VDict d) \<Rightarrow>
                (case foldM (bounds_step other) d True of
                   Inl e \<Rightarrow> Inl e
                 | Inr result \<Rightarrow> Inr (result, self))
            | _ \<Rightarrow> Inl AttributeError)
         else if py_eq ty (VStr ''length'') then
           (case options self of
              None \<Rightarrow> Inl AttributeError
            | Some opts \<Rightarrow>
               (case py_iter opts of
                  Inl e \<Rightarrow> Inl e
                | Inr ops \<Rightarrow>
                   (case foldM (length_step rt other) ops False of
                      Inl e \<Rightarrow> Inl e
                    | Inr result \<Rightarrow> Inr (result, self))))
         else if py_eq ty (VStr ''pattern'') then
           (case options self of
              None \<Rightarrow> Inl AttributeError
            | Some (VList ps) \<Rightarrow>
               (case ps of
                  [] \<Rightarrow> Inl IndexError
                | p # _ \<Rightarrow>
                   (case re_fullmatch rt p other of
                      Inl e \<Rightarrow> Inl e
                    | Inr m \<Rightarrow> Inr (m, self)))
            | Some pat \<Rightarrow>
               (case re_fullmatch rt pat other of
                  Inl e \<Rightarrow> Inl e
                | Inr m \<Rightarrow> Inr (m, self)))
         else Inr (False, self))"

text \<open>\<^verbatim>\<open>Restriction.__eq__(self, other)\<close>. The class defines neither \<^verbatim>\<open>__bool__\<close> nor
  \<^verbatim>\<open>__len__\<close>, so \<^verbatim>\<open>self\<close> is true in the guard \<^verbatim>\<open>self and (other or other == 0)\<close>.\<close>

definition Restriction_eq :: "runtime \<Rightarrow> restriction \<Rightarrow> pyval \<Rightarrow> exn + bool \<times> restriction" where
  "Restriction_eq rt self other =
     (if truthy other \<or> py_eq other (VInt 0) then match_by_type rt self other
      else Inr (False, self))"

section \<open>A sample runtime\<close>

text \<open>
  A runtime to evaluate the definitions on concrete inputs. Its \<^verbatim>\<open>float\<close> and \<^verbatim>\<open>int\<close>
  read an optional sign and decimal digits; its regular expressions are the literal
  patterns and the pattern \<^verbatim>\<open>.*\<close>; its \<^verbatim>\<open>eval\<close> knows the comparisons used below.
\<close>

fun digits_val :: "string \<Rightarrow> nat \<Rightarrow> nat option" where
  "digits_val [] acc = Some acc"
| "digits_val (c # s) acc =
     (case map_of (zip ''0123456789'' [0, 1, 2, 3, 4, 5, 6, 7, 8, 9]) c of
        None \<Rightarrow> None
      | Some d \<Rightarrow> digits_val s (10 * acc + d))"

definition sample_int :: "string \<Rightarrow> int option" where
  "sample_int s =
     (case s of
        [] \<Rightarrow> None
      | c # t \<Rightarrow>
         if c = CHR ''-'' then
           (if t = [] then None else map_option (\<lambda>n. - int n) (digits_val t 0))
         else map_option int (digits_val s 0))"

definition sample_fullmatch :: "pyval \<Rightarrow> pyval \<Rightarrow> exn + bool" where
  "sample_fullmatch p v =
     (case p of
        VStr pat \<Rightarrow>
          (case v of
             VStr s \<Rightarrow> Inr (pat = ''.*'' \<or> pat = s)
           | _ \<Rightarrow> Inl TypeError)
      | _ \<Rightarrow> Inl TypeError)"

definition sample_eval :: "string \<Rightarrow> exn + bool" where
  "sample_eval e =
     (if e = ''0==0'' then Inr True
      else if e = ''3==0'' then Inr False
      else Inl (Exception ''SyntaxError''))"

definition sample_rt :: runtime where
  "sample_rt =
     \<lparr>float_of_str = (\<lambda>s. map_option of_int (sample_int s)),
      int_of_str = sample_int,
      repr_of = (\<lambda>v. ''<object>''),
      dict_of = (\<lambda>v. Inl TypeError),
      re_fullmatch = sample_fullmatch,
      eval_truth = sample_eval,
      entity_len = (\<lambda>i. 1)\<rparr>"

section \<open>Facets\<close>

text \<open>
  A facet object is its class and the attributes that \<^verbatim>\<open>Facet.__init__\<close> and
  \<^verbatim>\<open>Facet.parse\<close> bind with \<^verbatim>\<open>setattr\<close>, by name and in the order they were bound. The
  value of an attribute is a plain value, a Restriction, or a list of Restrictions.
  An attribute that was never bound is absent, and reading it raises AttributeError.
  The attributes that evaluation never reads (\<^verbatim>\<open>status\<close>, \<^verbatim>\<open>failed_entities\<close>,
  \<^verbatim>\<open>failed_reasons\<close>, \<^verbatim>\<open>parameters\<close> and the templates) are left out. Restrictions are
  held by value: no two attributes share one Restriction object.
\<close>

datatype param = PVal pyval | PRestr restriction | PList "restriction list"

datatype facet_class = Entity | Attribute | Classification | PartOf | Property | Material

record facet =
  cls :: facet_class
  attrs :: "(string \<times> param) list"

text \<open>The constructors: \<^verbatim>\<open>self.parameters\<close> of each class, the \<^verbatim>\<open>@\<close> removed from the names.\<close>

definition Entity_init :: "param \<Rightarrow> param \<Rightarrow> param \<Rightarrow> facet" where
  "Entity_init name predefinedType instructions =
     \<lparr>cls = Entity,
      attrs = [(''name'', name), (''predefinedType'', predefinedType),
               (''instructions'', instructions)]\<rparr>"

definition Attribute_init :: "param \<Rightarrow> param \<Rightarrow> param \<Rightarrow> param \<Rightarrow> param \<Rightarrow> facet" where
  "Attribute_init name val minOccurs maxOccurs instructions =
     \<lparr>cls = Attribute,
      attrs = [(''name'', name), (''value'', val), (''minOccurs'', minOccurs),
               (''maxOccurs'', maxOccurs), (''instructions'', instructions)]\<rparr>"

definition Classification_init ::
  "param \<Rightarrow> param \<Rightarrow> param \<Rightarrow> param \<Rightarrow> param \<Rightarrow> param \<Rightarrow> facet" where
  "Classification_init val system uri minOccurs maxOccurs instructions =
     \<lparr>cls = Classification,
      attrs = [(''value'', val), (''system'', system), (''uri'', uri),
               (''minOccurs'', minOccurs), (''maxOccurs'', maxOccurs),
               (''instructions'', instructions)]\<rparr>"

definition PartOf_init :: "param \<Rightarrow> param \<Rightarrow> param \<Rightarrow> param \<Rightarrow> param \<Rightarrow> facet" where
  "PartOf_init entity relation minOccurs maxOccurs instructions =
     \<lparr>cls = PartOf,
      attrs = [(''entity'', entity), (''relation'', relation), (''minOccurs'', minOccurs),
               (''maxOccurs'', maxOccurs), (''instructions'', instructions)]\<rparr>"

definition Property_init ::
  "param \<Rightarrow> param \<Rightarrow> param \<Rightarrow> param \<Rightarrow> param \<Rightarrow> param \<Rightarrow> param \<Rightarrow> param \<Rightarrow> facet" where
  "Property_init propertySet name val measure_tag uri minOccurs maxOccurs instructions =
     \<lparr>cls = Property,
      attrs = [(''propertySet'', propertySet), (''name'', name), (''value'', val),
               (''measure'', measure_tag), (''uri'', uri), (''minOccurs'', minOccurs),
               (''maxOccurs'', maxOccurs), (''instructions'', instructions)]\<rparr>"

definition Material_init :: "param \<Rightarrow> param \<Rightarrow> param \<Rightarrow> param \<Rightarrow> param \<Rightarrow> facet" where
  "Material_init val uri minOccurs maxOccurs instructions =
     \<lparr>cls = Material,
      attrs = [(''value'', val), (''uri'', uri), (''minOccurs'', minOccurs),
               (''maxOccurs'', maxOccurs), (''instructions'', instructions)]\<rparr>"

subsection \<open>Facet.parse\<close>

text \<open>\<^verbatim>\<open>x[0]\<close>\<close>

definition subscript0 :: "pyval \<Rightarrow> exn + pyval" where
  "subscript0 x =
     (case x of
        VList xs \<Rightarrow> (case xs of [] \<Rightarrow> Inl IndexError | y # _ \<Rightarrow> Inr y)
      | VTuple xs \<Rightarrow> (case xs of [] \<Rightarrow> Inl IndexError | y # _ \<Rightarrow> Inr y)
      | VStr s \<Rightarrow> (case s of [] \<Rightarrow> Inl IndexError | c # _ \<Rightarrow> Inr (VStr [c]))
      | VDict d \<Rightarrow> Inl KeyError
      | _ \<Rightarrow> Inl TypeError)"

text \<open>One round of the loop of \<^verbatim>\<open>Facet.parse\<close>: whatever the key, it becomes an
  attribute of the facet.\<close>

definition parse_item :: "runtime \<Rightarrow> string \<times> pyval \<Rightarrow> facet \<Rightarrow> exn + facet" where
  "parse_item rt kv self =
     (let name = filter (\<lambda>c. c \<noteq> CHR ''@'') (fst kv);
          bind = (\<lambda>p. self\<lparr>attrs := AList.update name p (attrs self)\<rparr>) in
      case snd kv of
        VDict d \<Rightarrow>
          (case map_of d ''simpleValue'' of
             Some v \<Rightarrow> Inr (bind (PVal v))
           | None \<Rightarrow>
              (case map_of d ''restriction'' of
                 Some rs \<Rightarrow>
                   (case subscript0 rs of
                      Inl e \<Rightarrow> Inl e
                    | Inr r0 \<Rightarrow>
                       (case Restriction_parse rt Restriction_default r0 of
                          Inl e \<Rightarrow> Inl e
                        | Inr r \<Rightarrow> Inr (bind (PRestr r))))
               | None \<Rightarrow> Inr (bind (PVal (snd kv)))))
      | v \<Rightarrow> Inr (bind (PVal v)))"

definition Facet_parse :: "runtime \<Rightarrow> facet \<Rightarrow> pyval \<Rightarrow> exn + facet" where
  "Facet_parse rt self xml =
     (case xml of
        VDict items \<Rightarrow> foldM (parse_item rt) items self
      | _ \<Rightarrow> Inl AttributeError)"

subsection \<open>Evaluation reads and compares attributes of the facet\<close>

text \<open>
  A \<^verbatim>\<open>__call__\<close> runs on the attributes of \<^verbatim>\<open>self\<close> and returns a value and the
  attributes as it leaves them, or raises.
\<close>

type_synonym 'a M = "(string \<times> param) list \<Rightarrow> exn + 'a \<times> (string \<times> param) list"

definition ret :: "'a \<Rightarrow> 'a M" where
  "ret x = (\<lambda>s. Inr (x, s))"

definition raise :: "exn \<Rightarrow> 'a M" where
  "raise e = (\<lambda>s. Inl e)"

definition bnd :: "'a M \<Rightarrow> ('a \<Rightarrow> 'b M) \<Rightarrow> 'b M" where
  "bnd m f = (\<lambda>s. case m s of Inl e \<Rightarrow> Inl e | Inr (x, s') \<Rightarrow> f x s')"

definition lift_res :: "exn + 'a \<Rightarrow> 'a M" where
  "lift_res r = (\<lambda>s. case r of Inl e \<Rightarrow> Inl e | Inr x \<Rightarrow> Inr (x, s))"

text \<open>\<^verbatim>\<open>bool(p)\<close> of an attribute's value: a Restriction has neither \<^verbatim>\<open>__bool__\<close> nor
  \<^verbatim>\<open>__len__\<close> and is true.\<close>

definition param_truthy :: "param \<Rightarrow> bool" where
  "param_truthy p =
     (case p of PVal v \<Rightarrow> truthy v | PRestr r \<Rightarrow> True | PList rs \<Rightarrow> rs \<noteq> [])"

text \<open>The string, where \<^verbatim>\<open>isinstance(p, str)\<close>.\<close>

definition param_str :: "param \<Rightarrow> string option" where
  "param_str p = (case p of PVal (VStr s) \<Rightarrow> Some s | _ \<Rightarrow> None)"

text \<open>\<^verbatim>\<open>rs == vs\<close> for two lists of one length, the first of Restrictions: element by
  element up to the first pair that differs.\<close>

fun list_eq :: "runtime \<Rightarrow> restriction list \<Rightarrow> pyval list \<Rightarrow> exn + bool \<times> restriction list" where
  "list_eq rt [] vs = Inr (True, [])"
| "list_eq rt (r # rs) vs =
     (case vs of
        [] \<Rightarrow> Inr (True, r # rs)
      | v # vs' \<Rightarrow>
         (case Restriction_eq rt r v of
            Inl e \<Rightarrow> Inl e
          | Inr (b, r') \<Rightarrow>
             if b then
               (case list_eq rt rs vs' of
                  Inl e \<Rightarrow> Inl e
                | Inr (c, rs') \<Rightarrow> Inr (c, r' # rs'))
             else Inr (False, r' # rs)))"

text \<open>\<^verbatim>\<open>v == p\<close> (and \<^verbatim>\<open>p == v\<close>) for an attribute's value \<open>p\<close> and a value \<open>v\<close> of the model.
  Against a Restriction, either order ends in \<^verbatim>\<open>Restriction.__eq__(p, v)\<close>, since the
  values of the model do not know how to compare themselves with one.\<close>

definition param_eq :: "runtime \<Rightarrow> param \<Rightarrow> pyval \<Rightarrow> exn + bool \<times> param" where
  "param_eq rt p v =
     (case p of
        PVal x \<Rightarrow> Inr (py_eq v x, p)
      | PRestr r \<Rightarrow>
         (case Restriction_eq rt r v of
            Inl e \<Rightarrow> Inl e
          | Inr (b, r') \<Rightarrow> Inr (b, PRestr r'))
      | PList rs \<Rightarrow>
         (case v of
            VList vs \<Rightarrow>
              if length vs \<noteq> length rs then Inr (False, p)
              else (case list_eq rt rs vs of
                      Inl e \<Rightarrow> Inl e
                    | Inr (b, rs') \<Rightarrow> Inr (b, PList rs'))
          | _ \<Rightarrow> Inr (False, p)))"

text \<open>\<^verbatim>\<open>bool(self.n)\<close>, \<^verbatim>\<open>self.n\<close> where it is a string, and \<^verbatim>\<open>self.n == v\<close>.\<close>

definition attr_truthy :: "string \<Rightarrow> bool M" where
  "attr_truthy n =
     (\<lambda>s. case map_of s n of None \<Rightarrow> Inl AttributeError | Some p \<Rightarrow> Inr (param_truthy p, s))"

definition attr_str :: "string \<Rightarrow> string option M" where
  "attr_str n =
     (\<lambda>s. case map_of s n of None \<Rightarrow> Inl AttributeError | Some p \<Rightarrow> Inr (param_str p, s))"

definition eq_attr :: "runtime \<Rightarrow> string \<Rightarrow> pyval \<Rightarrow> bool M" where
  "eq_attr rt n v =
     (\<lambda>s. case map_of s n of
            None \<Rightarrow> Inl AttributeError
          | Some p \<Rightarrow>
             (case param_eq rt p v of
                Inl e \<Rightarrow> Inl e
              | Inr (b, p') \<Rightarrow> Inr (b, AList.update n p' s)))"

text \<open>\<^verbatim>\<open>[kv for kv in items if kv[0] == self.n]\<close>, every key compared.\<close>

fun select_items :: "runtime \<Rightarrow> string \<Rightarrow> (string \<times> 'a) list \<Rightarrow> (string \<times> 'a) list M" where
  "select_items rt n [] = ret []"
| "select_items rt n (kv # kvs) =
     bnd (eq_attr rt n (VStr (fst kv))) (\<lambda>b.
     bnd (select_items rt n kvs) (\<lambda>rest.
     ret (if b then kv # rest else rest)))"

text \<open>\<^verbatim>\<open>any([self.n == v for v in vs])\<close>: the list is built first, every value compared.\<close>

fun eq_any :: "runtime \<Rightarrow> string \<Rightarrow> pyval list \<Rightarrow> bool M" where
  "eq_any rt n [] = ret False"
| "eq_any rt n (v # vs) =
     bnd (eq_attr rt n v) (\<lambda>b.
     bnd (eq_any rt n vs) (\<lambda>c.
     ret (b \<or> c)))"

text \<open>A loop that compares until the first value equal to \<^verbatim>\<open>self.n\<close>, then breaks.\<close>

fun eq_first :: "runtime \<Rightarrow> string \<Rightarrow> pyval list \<Rightarrow> bool M" where
  "eq_first rt n [] = ret False"
| "eq_first rt n (v # vs) =
     bnd (eq_attr rt n v) (\<lambda>b. if b then ret True else eq_first rt n vs)"

subsection \<open>Results\<close>

text \<open>A \<^verbatim>\<open>Result\<close> of the subclass for the facet's class; \<^verbatim>\<open>reason\<close> is \<^verbatim>\<open>None\<close> or a
  dictionary with a \<^verbatim>\<open>type\<close> and, for most types, an \<^verbatim>\<open>actual\<close>.\<close>

record result =
  result_class :: facet_class
  is_pass :: bool
  reason :: pyval

definition reason1 :: "string \<Rightarrow> pyval" where
  "reason1 t = VDict [(''type'', VStr t)]"

definition reason2 :: "string \<Rightarrow> pyval \<Rightarrow> pyval" where
  "reason2 t a = VDict [(''type'', VStr t), (''actual'', a)]"

section \<open>Model elements\<close>

text \<open>
  The entity graph and the utilities of \<^verbatim>\<open>ifcopenshell\<close> that read it are outside the
  source. An element is modelled by what they return for it: each field below is the
  answer of one call that some facet makes. Where a call can fail in a way that the
  source's control flow depends on, the field says so.
\<close>

text \<open>An element up the decomposition of another: its \<^verbatim>\<open>is_a()\<close>, and the whole that it
  is part of in turn. The chain of wholes above an element is finite (the schema rules
  out cycles of aggregation and of nesting).\<close>

datatype whole = Whole string "whole option"

text \<open>A relation of \<^verbatim>\<open>HasAssignments\<close>: whether it \<^verbatim>\<open>is_a("IfcRelAssignsToGroup")\<close>, and
  the \<^verbatim>\<open>is_a()\<close> of its \<^verbatim>\<open>RelatingGroup\<close>, \<open>None\<close> where that attribute is \<^verbatim>\<open>None\<close>.\<close>

record assignment =
  rel_is_group :: bool
  RelatingGroup :: "string option"

text \<open>A classification reference: its identity, its attributes \<^verbatim>\<open>Identification\<close>
  (IFC4) and \<^verbatim>\<open>ItemReference\<close> (IFC2X3), \<open>None\<close> where the schema has no such
  attribute, and the \<^verbatim>\<open>Name\<close> of \<^verbatim>\<open>get_classification(r)\<close>, \<open>None\<close> where that call
  returns \<^verbatim>\<open>None\<close>.\<close>

record reference =
  ref_id :: nat
  Identification :: "pyval option"
  ItemReference :: "pyval option"
  classification_Name :: "pyval option"

text \<open>A reference of \<^verbatim>\<open>get_references(inst)\<close> with its \<^verbatim>\<open>get_inherited_references\<close>.\<close>

record leaf_reference =
  leaf :: reference
  inherited :: "reference list"

text \<open>The \<^verbatim>\<open>NominalValue\<close> of a property: its \<^verbatim>\<open>is_a()\<close> and its \<^verbatim>\<open>wrappedValue\<close>.\<close>

record nominal =
  data_type :: string
  wrappedValue :: pyval

text \<open>An entity of \<^verbatim>\<open>HasProperties\<close>: its \<^verbatim>\<open>Name\<close>, whether it
  \<^verbatim>\<open>is_a("IfcPropertySingleValue")\<close>, its \<^verbatim>\<open>NominalValue\<close> (\<open>None\<close> where it is \<^verbatim>\<open>None\<close> or
  the entity has no such attribute), and the value that \<^verbatim>\<open>ifcopenshell.util.unit.convert\<close>
  returns for it, \<open>None\<close> where \<^verbatim>\<open>get_property_unit\<close> finds no unit.\<close>

record property_entity =
  prop_Name :: pyval
  is_single_value :: bool
  NominalValue :: "nominal option"
  si_value :: "pyval option"

text \<open>A property set of \<^verbatim>\<open>get_psets(inst)\<close>: its dictionary, and the \<^verbatim>\<open>HasProperties\<close> of
  the entity \<^verbatim>\<open>by_id(pset_props["id"])\<close>, \<open>None\<close> where that entity has none.\<close>

record pset =
  pset_props :: "(string \<times> pyval) list"
  HasProperties :: "property_entity list option"

text \<open>An \<^verbatim>\<open>IfcMaterial\<close>: its \<^verbatim>\<open>Name\<close> and its \<^verbatim>\<open>Category\<close>, \<open>None\<close> where the schema
  has no such attribute (IFC2X3).\<close>

record material_ref =
  mat_Name :: pyval
  mat_Category :: "pyval option"

text \<open>A layer, profile or constituent: \<^verbatim>\<open>Name\<close> and \<^verbatim>\<open>Category\<close> (\<open>None\<close> where the
  schema has no such attribute) and its \<^verbatim>\<open>Material\<close> (\<open>None\<close> where it is \<^verbatim>\<open>None\<close>).\<close>

record material_item =
  item_Name :: "pyval option"
  item_Category :: "pyval option"
  item_Material :: "material_ref option"

text \<open>What \<^verbatim>\<open>get_material(inst, should_skip_usage=True)\<close> returns: one of the five
  kinds that \<^verbatim>\<open>Material.__call__\<close> tests for, or a material of another kind (a single
  layer, profile or constituent), given by its \<^verbatim>\<open>is_a()\<close>.\<close>

datatype material =
    IfcMaterial material_ref
  | IfcMaterialList "material_ref list"
  | IfcMaterialLayerSet pyval "material_item list"
  | IfcMaterialProfileSet pyval "material_item list"
  | IfcMaterialConstituentSet pyval "material_item list"
  | OtherMaterial string

text \<open>The type object of \<^verbatim>\<open>get_type(inst)\<close>: the attributes \<^verbatim>\<open>getattr\<close> finds on it,
  and its \<^verbatim>\<open>get_info()\<close>.\<close>

record type_object =
  type_attributes :: "(string \<times> pyval) list"
  type_info :: "(string \<times> pyval) list"

record element =
  is_a :: string
  predefined_type :: pyval
  get_type :: "type_object option"
  attributes :: "(string \<times> pyval) list"
  get_info :: "(string \<times> pyval) list"
  get_argument_index :: "string \<Rightarrow> nat"
  attribute_type :: "nat \<Rightarrow> string option"
  inverse_attribute_names :: "string list"
  get_references :: "leaf_reference list"
  get_aggregate :: "whole option"
  HasAssignments :: "assignment list"
  get_container :: "string option"
  Nests :: "whole option"
  get_psets :: "(string \<times> pset) list"
  get_material :: "material option"

text \<open>
  \<^item> \<open>is_a\<close>: \<^verbatim>\<open>inst.is_a()\<close>; \<open>predefined_type\<close>: \<^verbatim>\<open>get_predefined_type(inst)\<close>;
  \<^item> \<open>attributes\<close>: the names \<^verbatim>\<open>getattr(inst, name)\<close> finds, with their values;
    \<open>get_info\<close>: \<^verbatim>\<open>inst.get_info().items()\<close>;
  \<^item> \<open>get_argument_index\<close>: \<^verbatim>\<open>inst.wrapped_data.get_argument_index\<close>;
    \<open>attribute_type\<close>: \<^verbatim>\<open>inst.attribute_type\<close>, \<open>None\<close> where it raises;
    \<open>inverse_attribute_names\<close>: \<^verbatim>\<open>inst.wrapped_data.get_inverse_attribute_names()\<close>;
  \<^item> \<open>get_aggregate\<close>, \<open>get_container\<close> (the container's \<^verbatim>\<open>is_a()\<close>), \<open>get_psets\<close>,
    \<open>get_material\<close>, \<open>get_references\<close>: the utilities of these names;
  \<^item> \<open>HasAssignments\<close>: \<^verbatim>\<open>getattr(inst, "HasAssignments", []) or []\<close>;
    \<open>Nests\<close>: the \<^verbatim>\<open>RelatingObject\<close> of the first relation of
    \<^verbatim>\<open>getattr(element, "Nests", []) or []\<close>, as \<^verbatim>\<open>PartOf.get_nested_whole\<close> returns it.
\<close>

text \<open>\<^verbatim>\<open>getattr(x, name, None)\<close>\<close>

definition getattr_or_None :: "(string \<times> pyval) list \<Rightarrow> string \<Rightarrow> pyval" where
  "getattr_or_None al n = (case map_of al n of Some v \<Rightarrow> v | None \<Rightarrow> VNone)"

text \<open>What \<^verbatim>\<open>ifc_file\<close> answers to \<^verbatim>\<open>Entity.filter\<close>: \<^verbatim>\<open>by_type(name, include_subtypes=False)\<close>
  and \<^verbatim>\<open>wrapped_data.types()\<close>.\<close>

record ifc_file =
  by_type :: "string \<Rightarrow> exn + element list"
  types :: "string list"

section \<open>Evaluating a facet on an element\<close>

subsection \<open>Entity\<close>

definition Entity_call :: "runtime \<Rightarrow> element \<Rightarrow> result M" where
  "Entity_call rt inst =
     bnd (eq_attr rt ''name'' (VStr (upper (is_a inst)))) (\<lambda>is_pass.
     if \<not> is_pass then
       ret \<lparr>result_class = Entity, is_pass = False,
            reason = reason2 ''NAME'' (VStr (upper (is_a inst)))\<rparr>
     else
       bnd (attr_truthy ''predefinedType'') (\<lambda>given.
       if given then
         bnd (eq_attr rt ''predefinedType'' (predefined_type inst)) (\<lambda>same.
         ret (if same then \<lparr>result_class = Entity, is_pass = True, reason = VNone\<rparr>
              else \<lparr>result_class = Entity, is_pass = False,
                    reason = reason2 ''PREDEFINEDTYPE'' (predefined_type inst)\<rparr>))
       else ret \<lparr>result_class = Entity, is_pass = True, reason = VNone\<rparr>))"

subsection \<open>Cardinality\<close>

text \<open>The first statement of every \<^verbatim>\<open>__call__\<close> but Entity's:
  \<^verbatim>\<open>self.minOccurs == 0 and self.maxOccurs != 0\<close>.\<close>

definition is_optional :: "runtime \<Rightarrow> bool M" where
  "is_optional rt =
     bnd (eq_attr rt ''minOccurs'' (VInt 0)) (\<lambda>a.
     if a then bnd (eq_attr rt ''maxOccurs'' (VInt 0)) (\<lambda>b. ret (\<not> b)) else ret False)"

text \<open>The frame that the five classes with cardinality share: the test above, then the
  class's own check, which leaves \<^verbatim>\<open>is_pass\<close> (\<open>None\<close> where no branch assigned it) and
  \<^verbatim>\<open>reason\<close>, then \<^verbatim>\<open>if self.maxOccurs == 0: return Result(not is_pass, {"type":
  "PROHIBITED"})\<close> and \<^verbatim>\<open>return Result(is_pass, reason)\<close>.\<close>

definition with_cardinality ::
  "runtime \<Rightarrow> facet_class \<Rightarrow> (bool option \<times> pyval) M \<Rightarrow> result M" where
  "with_cardinality rt c check =
     bnd (is_optional rt) (\<lambda>optional.
     if optional then ret \<lparr>result_class = c, is_pass = True, reason = VNone\<rparr>
     else
       bnd check (\<lambda>outcome.
       bnd (eq_attr rt ''maxOccurs'' (VInt 0)) (\<lambda>prohibited.
       case fst outcome of
         None \<Rightarrow> raise UnboundLocalError
       | Some passed \<Rightarrow>
           ret (if prohibited
                then \<lparr>result_class = c, is_pass = \<not> passed, reason = reason1 ''PROHIBITED''\<rparr>
                else \<lparr>result_class = c, is_pass = passed, reason = snd outcome\<rparr>))))"

subsection \<open>Comparing a value with self.value\<close>

text \<open>The test on a float and the float cast from the expected string:
  \<^verbatim>\<open>value < cast_value * (1.0 - 1e-6) or value > cast_value * (1.0 + 1e-6)\<close>; for any
  other pair, \<^verbatim>\<open>value != cast_value\<close>.\<close>

definition differs_from_cast :: "pyval \<Rightarrow> pyval \<Rightarrow> bool" where
  "differs_from_cast v cast_value =
     (case (v, cast_value) of
        (VFloat x, VFloat c) \<Rightarrow> x < c * (1 - 1 / 1000000) \<or> x > c * (1 + 1 / 1000000)
      | _ \<Rightarrow> \<not> py_eq v cast_value)"

text \<open>One round of the loop over the values in \<^verbatim>\<open>Attribute.__call__\<close> and in
  \<^verbatim>\<open>Property.__call__\<close>: whether the round sets \<^verbatim>\<open>is_pass = False\<close> and breaks. Only
  Attribute tests for an entity instance first.\<close>

definition value_differs :: "runtime \<Rightarrow> bool \<Rightarrow> pyval \<Rightarrow> bool M" where
  "value_differs rt entity_test v =
     (if entity_test \<and> isinstance_entity v then ret True
      else
        bnd (attr_str ''value'') (\<lambda>expected.
        case expected of
          Some s \<Rightarrow>
            if isinstance_str v then ret (\<not> py_eq v (VStr s))
            else
              lift_res (case cast_to_value rt (VStr s) v of
                          Inl e \<Rightarrow> Inl e
                        | Inr cast_value \<Rightarrow> Inr (differs_from_cast v cast_value))
        | None \<Rightarrow> bnd (eq_attr rt ''value'' v) (\<lambda>same. ret (\<not> same))))"

fun first_mismatch :: "runtime \<Rightarrow> bool \<Rightarrow> pyval list \<Rightarrow> pyval option M" where
  "first_mismatch rt entity_test [] = ret None"
| "first_mismatch rt entity_test (v # vs) =
     bnd (value_differs rt entity_test v) (\<lambda>d.
     if d then ret (Some v) else first_mismatch rt entity_test vs)"

subsection \<open>Attribute\<close>

text \<open>The names and values that \<^verbatim>\<open>Attribute.__call__\<close> collects.\<close>

definition attribute_candidates :: "runtime \<Rightarrow> element \<Rightarrow> (string \<times> pyval) list M" where
  "attribute_candidates rt inst =
     bnd (attr_str ''name'') (\<lambda>name.
     case name of
       Some n \<Rightarrow>
         (let type_value = (case get_type inst of
                              Some element_type \<Rightarrow> getattr_or_None (type_attributes element_type) n
                            | None \<Rightarrow> VNone);
              occurrence_value = getattr_or_None (attributes inst) n
          in ret [(n, if occurrence_value \<noteq> VNone then occurrence_value else type_value)])
     | None \<Rightarrow>
         select_items rt ''name''
           (case get_type inst of
              Some element_type \<Rightarrow>
                fold (\<lambda>kv. AList.update (fst kv) (snd kv))
                  (filter (\<lambda>kv. snd kv \<noteq> VNone) (get_info inst)) (type_info element_type)
            | None \<Rightarrow> get_info inst))"

text \<open>One round of the loop \<^verbatim>\<open>for i, value in enumerate(values)\<close>: the reason it fails
  with, if it does.\<close>

definition falsey_or_invalid :: "element \<Rightarrow> string \<times> pyval \<Rightarrow> pyval option" where
  "falsey_or_invalid inst nv =
     (let v = snd nv in
      if v = VNone then Some (reason2 ''FALSEY'' v)
      else if py_eq v (VStr []) then Some (reason2 ''FALSEY'' v)
      else if py_eq v (VTuple []) then Some (reason2 ''FALSEY'' v)
      else
        (case attribute_type inst (get_argument_index inst (fst nv)) of
           Some t \<Rightarrow>
             if t = ''LOGICAL'' \<and> py_eq v (VStr ''UNKNOWN'') then Some (reason2 ''FALSEY'' v)
             else None
         | None \<Rightarrow>
             if fst nv \<in> set (inverse_attribute_names inst) then Some (reason1 ''INVALID'')
             else None))"

fun first_failure :: "element \<Rightarrow> (string \<times> pyval) list \<Rightarrow> pyval option" where
  "first_failure inst [] = None"
| "first_failure inst (nv # nvs) =
     (case falsey_or_invalid inst nv of
        Some r \<Rightarrow> Some r
      | None \<Rightarrow> first_failure inst nvs)"

definition Attribute_check :: "runtime \<Rightarrow> element \<Rightarrow> (bool option \<times> pyval) M" where
  "Attribute_check rt inst =
     bnd (attribute_candidates rt inst) (\<lambda>nvs.
     if nvs = [] then ret (Some False, reason1 ''NOVALUE'')
     else
       (case first_failure inst nvs of
          Some r \<Rightarrow> ret (Some False, r)
        | None \<Rightarrow>
            bnd (attr_truthy ''value'') (\<lambda>given.
            if given then
              bnd (first_mismatch rt True (map snd nvs)) (\<lambda>m.
              case m of
                Some v \<Rightarrow> ret (Some False, reason2 ''VALUE'' v)
              | None \<Rightarrow> ret (Some True, VNone))
            else ret (Some True, VNone))))"

subsection \<open>Classification\<close>

text \<open>The set \<^verbatim>\<open>references\<close>: the leaf references, then the inherited references of
  each, every reference once. (The order in which Python runs through a set is not
  fixed; here it is the order of insertion.)\<close>

definition add_reference :: "reference \<Rightarrow> reference list \<Rightarrow> reference list" where
  "add_reference r rs = (if ref_id r \<in> ref_id ` set rs then rs else rs @ [r])"

definition all_references :: "element \<Rightarrow> reference list" where
  "all_references inst =
     fold (\<lambda>l acc. fold add_reference (inherited l) acc) (get_references inst)
       (fold add_reference (map leaf (get_references inst)) [])"

text \<open>\<^verbatim>\<open>getattr(r, "Identification", getattr(r, "ItemReference", None))\<close>\<close>

definition reference_value :: "reference \<Rightarrow> pyval" where
  "reference_value r =
     (case Identification r of
        Some v \<Rightarrow> v
      | None \<Rightarrow> (case ItemReference r of Some v \<Rightarrow> v | None \<Rightarrow> VNone))"

definition Classification_check :: "runtime \<Rightarrow> element \<Rightarrow> (bool option \<times> pyval) M" where
  "Classification_check rt inst =
     (let references = all_references inst in
      if references = [] then ret (Some False, reason1 ''NOVALUE'')
      else
        bnd (attr_truthy ''value'') (\<lambda>value_given.
        bnd (if value_given then
               (let vals = map reference_value references in
                bnd (eq_any rt ''value'' vals) (\<lambda>found.
                ret (if found then (True, VNone) else (False, reason2 ''VALUE'' (VList vals)))))
             else ret (True, VNone)) (\<lambda>after_value.
        if \<not> fst after_value then ret (Some False, snd after_value)
        else
          bnd (attr_truthy ''system'') (\<lambda>system_given.
          if system_given then
            (case those (map classification_Name references) of
               None \<Rightarrow> raise AttributeError
             | Some systems \<Rightarrow>
                 bnd (eq_any rt ''system'' systems) (\<lambda>found.
                 ret (if found then (Some True, VNone)
                      else (Some False, reason2 ''SYSTEM'' (VList systems)))))
          else ret (Some True, VNone)))))"

subsection \<open>PartOf\<close>

text \<open>The loop \<^verbatim>\<open>while aggregate is not None\<close> (and \<^verbatim>\<open>while nest is not None\<close>): whether
  a whole of the wanted type was found, and the \<^verbatim>\<open>ancestors\<close> seen.\<close>

fun climb :: "runtime \<Rightarrow> whole option \<Rightarrow> pyval list \<Rightarrow> (bool \<times> pyval list) M" where
  "climb rt None ancestors = ret (False, ancestors)"
| "climb rt (Some (Whole n up)) ancestors =
     bnd (eq_attr rt ''entity'' (VStr (upper n))) (\<lambda>found.
     if found then ret (True, ancestors @ [VStr n])
     else climb rt up (ancestors @ [VStr n]))"

text \<open>The branches for aggregation and nesting differ in the reason for a missing
  whole only.\<close>

definition part_of_chain ::
  "runtime \<Rightarrow> whole option \<Rightarrow> string \<Rightarrow> (bool option \<times> pyval) M" where
  "part_of_chain rt parent missing =
     (case parent of
        None \<Rightarrow> ret (Some False, reason1 missing)
      | Some w \<Rightarrow>
          bnd (attr_truthy ''entity'') (\<lambda>given.
          if given then
            bnd (climb rt parent []) (\<lambda>r.
            ret (if fst r then (Some True, VNone)
                 else (Some False, reason2 ''ENTITY'' (VList (snd r)))))
          else ret (Some True, VNone)))"

text \<open>The branches for a group and for a spatial container: \<open>parent\<close> is the \<^verbatim>\<open>is_a()\<close>
  of the group or container found.\<close>

definition part_of_one ::
  "runtime \<Rightarrow> string option \<Rightarrow> string \<Rightarrow> (bool option \<times> pyval) M" where
  "part_of_one rt parent missing =
     (case parent of
        None \<Rightarrow> ret (Some False, reason1 missing)
      | Some n \<Rightarrow>
          bnd (attr_truthy ''entity'') (\<lambda>given.
          if given then
            bnd (eq_attr rt ''entity'' (VStr (upper n))) (\<lambda>same.
            ret (if same then (Some True, VNone)
                 else (Some False, reason2 ''ENTITY'' (VStr (upper n)))))
          else ret (Some True, VNone)))"

text \<open>The group of the first relation that is an \<^verbatim>\<open>IfcRelAssignsToGroup\<close>.\<close>

definition first_group :: "element \<Rightarrow> string option" where
  "first_group inst =
     (case find rel_is_group (HasAssignments inst) of
        None \<Rightarrow> None
      | Some rel \<Rightarrow> RelatingGroup rel)"

text \<open>With a relation that is none of the four names no branch runs, and \<^verbatim>\<open>is_pass\<close>
  is never assigned.\<close>

definition PartOf_check :: "runtime \<Rightarrow> element \<Rightarrow> (bool option \<times> pyval) M" where
  "PartOf_check rt inst =
     bnd (eq_attr rt ''relation'' (VStr ''IfcRelAggregates'')) (\<lambda>aggregates.
     if aggregates then part_of_chain rt (get_aggregate inst) ''RELATION''
     else
       bnd (eq_attr rt ''relation'' (VStr ''IfcRelAssignsToGroup'')) (\<lambda>assigns.
       if assigns then part_of_one rt (first_group inst) ''NOVALUE''
       else
         bnd (eq_attr rt ''relation'' (VStr ''IfcRelContainedInSpatialStructure'')) (\<lambda>contained.
         if contained then part_of_one rt (get_container inst) ''RELATION''
         else
           bnd (eq_attr rt ''relation'' (VStr ''IfcRelNests'')) (\<lambda>nests.
           if nests then part_of_chain rt (Nests inst) ''NOVALUE''
           else ret (None, VNone)))))"

subsection \<open>Property\<close>

text \<open>\<^verbatim>\<open>by_id(pset_props["id"]).HasProperties\<close>\<close>

definition pset_entity_properties :: "pset \<Rightarrow> exn + property_entity list" where
  "pset_entity_properties p =
     (case map_of (pset_props p) ''id'' of
        None \<Rightarrow> Inl KeyError
      | Some i \<Rightarrow> (case HasProperties p of None \<Rightarrow> Inl AttributeError | Some hs \<Rightarrow> Inr hs))"

text \<open>\<^verbatim>\<open>[p for p in ... .HasProperties if p.Name == self.name][0].NominalValue.is_a("IfcLogical")\<close>\<close>

definition is_logical_property :: "pset \<Rightarrow> string \<Rightarrow> exn + bool" where
  "is_logical_property p n =
     (case pset_entity_properties p of
        Inl e \<Rightarrow> Inl e
      | Inr hs \<Rightarrow>
         (case filter (\<lambda>q. py_eq (prop_Name q) (VStr n)) hs of
            [] \<Rightarrow> Inl IndexError
          | q # _ \<Rightarrow>
             (case NominalValue q of
                None \<Rightarrow> Inl AttributeError
              | Some nv \<Rightarrow> Inr (data_type nv = ''IfcLogical''))))"

text \<open>\<^verbatim>\<open>props[pset_name]\<close> as the first half of a round of the loop over the property
  sets leaves it.\<close>

definition resolve_props :: "runtime \<Rightarrow> pset \<Rightarrow> (string \<times> pyval) list M" where
  "resolve_props rt p =
     bnd (attr_str ''name'') (\<lambda>name.
     case name of
       Some n \<Rightarrow>
         (let prop = getattr_or_None (pset_props p) n in
          if py_eq prop (VStr ''UNKNOWN'') then
            bnd (lift_res (is_logical_property p n)) (\<lambda>logical.
            ret (if logical then [] else [(n, prop)]))
          else ret (if prop \<noteq> VNone \<and> \<not> py_eq prop (VStr []) then [(n, prop)] else []))
     | None \<Rightarrow> select_items rt ''name'' (pset_props p))"

text \<open>The loop \<^verbatim>\<open>for prop_entity in pset_entity.HasProperties\<close>: the data type that
  differs from \<^verbatim>\<open>self.measure\<close>, if the loop breaks on one, and \<^verbatim>\<open>props[pset_name]\<close> with
  the converted values.\<close>

fun measure_loop ::
  "runtime \<Rightarrow> property_entity list \<Rightarrow> (string \<times> pyval) list
     \<Rightarrow> (pyval option \<times> (string \<times> pyval) list) M" where
  "measure_loop rt [] props = ret (None, props)"
| "measure_loop rt (q # qs) props =
     (case (if py_in (prop_Name q) (map (\<lambda>kv. VStr (fst kv)) props) \<and> is_single_value q
            then NominalValue q else None) of
        None \<Rightarrow> measure_loop rt qs props
      | Some nv \<Rightarrow>
          bnd (eq_attr rt ''measure'' (VStr (data_type nv))) (\<lambda>same.
          if \<not> same then ret (Some (VStr (data_type nv)), props)
          else
            measure_loop rt qs
              (case (si_value q, prop_Name q) of
                 (Some converted, VStr k) \<Rightarrow> AList.update k converted props
               | _ \<Rightarrow> props)))"

text \<open>The loop \<^verbatim>\<open>for pset_name, pset_props in psets.items()\<close>, with \<^verbatim>\<open>is_pass\<close> and
  \<^verbatim>\<open>reason\<close> as its state. A value that does not match breaks the loop over the values
  only: the next property set is still looked at.\<close>

fun psets_loop :: "runtime \<Rightarrow> (string \<times> pset) list \<Rightarrow> bool \<times> pyval \<Rightarrow> (bool \<times> pyval) M" where
  "psets_loop rt [] st = ret st"
| "psets_loop rt (np # rest) st =
     bnd (resolve_props rt (snd np)) (\<lambda>props.
     if props = [] then ret (False, reason1 ''NOVALUE'')
     else
       bnd (lift_res (pset_entity_properties (snd np))) (\<lambda>hs.
       bnd (measure_loop rt hs props) (\<lambda>r.
       case fst r of
         Some actual \<Rightarrow> ret (False, reason2 ''MEASURE'' actual)
       | None \<Rightarrow>
           if \<not> fst st then ret st
           else
             bnd (attr_truthy ''value'') (\<lambda>given.
             if given then
               bnd (first_mismatch rt False (map snd (snd r))) (\<lambda>m.
               case m of
                 Some v \<Rightarrow> psets_loop rt rest (False, reason2 ''VALUE'' v)
               | None \<Rightarrow> psets_loop rt rest st)
             else psets_loop rt rest st))))"

text \<open>The property sets selected by \<^verbatim>\<open>self.propertySet\<close>.\<close>

definition selected_psets :: "runtime \<Rightarrow> element \<Rightarrow> (string \<times> pset) list M" where
  "selected_psets rt inst =
     bnd (attr_str ''propertySet'') (\<lambda>name.
     case name of
       Some n \<Rightarrow>
         ret (case map_of (get_psets inst) n of
                Some p \<Rightarrow> if pset_props p \<noteq> [] then [(n, p)] else []
              | None \<Rightarrow> [])
     | None \<Rightarrow> select_items rt ''propertySet'' (get_psets inst))"

definition Property_check :: "runtime \<Rightarrow> element \<Rightarrow> (bool option \<times> pyval) M" where
  "Property_check rt inst =
     bnd (selected_psets rt inst) (\<lambda>psets.
     if psets = [] then ret (Some False, reason1 ''NOPSET'')
     else
       bnd (psets_loop rt psets (True, VNone)) (\<lambda>st.
       ret (Some (fst st), snd st)))"

subsection \<open>Material\<close>

text \<open>\<^verbatim>\<open>values.update(xs)\<close> on a set, listed in the order of insertion.\<close>

definition set_update :: "pyval list \<Rightarrow> pyval list \<Rightarrow> pyval list" where
  "set_update xs acc = fold (\<lambda>x a. if py_in x a then a else a @ [x]) xs acc"

text \<open>\<^verbatim>\<open>[mat.Name, getattr(mat, "Category")]\<close>: \<^verbatim>\<open>getattr\<close> without a default raises
  where the attribute is missing.\<close>

definition material_names :: "material_ref \<Rightarrow> exn + pyval list" where
  "material_names m =
     (case mat_Category m of
        None \<Rightarrow> Inl AttributeError
      | Some c \<Rightarrow> Inr [mat_Name m, c])"

text \<open>\<^verbatim>\<open>[item.Name, item.Category, item.Material.Name, getattr(item.Material, "Category")]\<close>\<close>

definition item_names :: "material_item \<Rightarrow> exn + pyval list" where
  "item_names item =
     (case item_Name item of
        None \<Rightarrow> Inl AttributeError
      | Some n \<Rightarrow>
         (case item_Category item of
            None \<Rightarrow> Inl AttributeError
          | Some c \<Rightarrow>
             (case item_Material item of
                None \<Rightarrow> Inl AttributeError
              | Some m \<Rightarrow>
                 (case material_names m of
                    Inl e \<Rightarrow> Inl e
                  | Inr ms \<Rightarrow> Inr (n # c # ms)))))"

definition update_all :: "('a \<Rightarrow> exn + pyval list) \<Rightarrow> 'a list \<Rightarrow> pyval list \<Rightarrow> exn + pyval list" where
  "update_all names_of items acc =
     foldM (\<lambda>item a. case names_of item of Inl e \<Rightarrow> Inl e | Inr xs \<Rightarrow> Inr (set_update xs a))
       items acc"

text \<open>The set \<^verbatim>\<open>values\<close>. For a material of none of the five kinds no branch of the
  chain runs, and the loop \<^verbatim>\<open>for value in values\<close> reads a name that was never assigned.\<close>

definition material_values :: "material \<Rightarrow> exn + pyval list" where
  "material_values m =
     (case m of
        IfcMaterial mat \<Rightarrow>
          (case material_names mat of Inl e \<Rightarrow> Inl e | Inr xs \<Rightarrow> Inr (set_update xs []))
      | IfcMaterialList mats \<Rightarrow> update_all material_names mats []
      | IfcMaterialLayerSet n items \<Rightarrow> update_all item_names items [n]
      | IfcMaterialProfileSet n items \<Rightarrow> update_all item_names items [n]
      | IfcMaterialConstituentSet n items \<Rightarrow> update_all item_names items [n]
      | OtherMaterial t \<Rightarrow> Inl UnboundLocalError)"

definition Material_check :: "runtime \<Rightarrow> element \<Rightarrow> (bool option \<times> pyval) M" where
  "Material_check rt inst =
     (case get_material inst of
        None \<Rightarrow> ret (Some False, reason1 ''NOVALUE'')
      | Some m \<Rightarrow>
          bnd (attr_truthy ''value'') (\<lambda>given.
          if given then
            bnd (lift_res (material_values m)) (\<lambda>vals.
            bnd (eq_first rt ''value'' vals) (\<lambda>found.
            ret (if found then (Some True, VNone)
                 else (Some False, reason2 ''VALUE'' (VList vals)))))
          else ret (Some True, VNone)))"

subsection \<open>Calling a facet\<close>

definition facet_run :: "runtime \<Rightarrow> facet_class \<Rightarrow> element \<Rightarrow> result M" where
  "facet_run rt c inst =
     (case c of
        Entity \<Rightarrow> Entity_call rt inst
      | Attribute \<Rightarrow> with_cardinality rt Attribute (Attribute_check rt inst)
      | Classification \<Rightarrow> with_cardinality rt Classification (Classification_check rt inst)
      | PartOf \<Rightarrow> with_cardinality rt PartOf (PartOf_check rt inst)
      | Property \<Rightarrow> with_cardinality rt Property (Property_check rt inst)
      | Material \<Rightarrow> with_cardinality rt Material (Material_check rt inst))"

text \<open>\<^verbatim>\<open>self(inst)\<close>: the \<^verbatim>\<open>__call__\<close> of the facet's class. It returns the Result and the
  facet as the call leaves it, or the exception raised.\<close>

definition facet_call :: "runtime \<Rightarrow> facet \<Rightarrow> element \<Rightarrow> exn + result \<times> facet" where
  "facet_call rt self inst =
     (case facet_run rt (cls self) inst (attrs self) of
        Inl e \<Rightarrow> Inl e
      | Inr (r, s) \<Rightarrow> Inr (r, self\<lparr>attrs := s\<rparr>))"

subsection \<open>filter\<close>

text \<open>\<^verbatim>\<open>[e for e in elements if self(e)]\<close>; \<^verbatim>\<open>Result.__bool__\<close> is \<^verbatim>\<open>is_pass\<close>.\<close>

fun passing :: "runtime \<Rightarrow> facet \<Rightarrow> element list \<Rightarrow> exn + element list \<times> facet" where
  "passing rt self [] = Inr ([], self)"
| "passing rt self (e # es) =
     (case facet_call rt self e of
        Inl x \<Rightarrow> Inl x
      | Inr (r, self') \<Rightarrow>
         (case passing rt self' es of
            Inl x \<Rightarrow> Inl x
          | Inr (keep, self'') \<Rightarrow> Inr (if is_pass r then e # keep else keep, self'')))"

text \<open>\<^verbatim>\<open>Entity.filter\<close>: the elements come from the file, not from \<^verbatim>\<open>elements\<close>.\<close>

definition Entity_results :: "runtime \<Rightarrow> ifc_file \<Rightarrow> (exn + element list) M" where
  "Entity_results rt file =
     bnd (attr_str ''name'') (\<lambda>name.
     case name of
       Some n \<Rightarrow> ret (by_type file n)
     | None \<Rightarrow>
         bnd (select_items rt ''name'' (map (\<lambda>t. (upper t, t)) (types file))) (\<lambda>ifc_classes.
         ret (case mapM (\<lambda>c. by_type file (snd c)) ifc_classes of
                Inl e \<Rightarrow> Inl e
              | Inr rs \<Rightarrow> Inr (concat rs))))"

definition Entity_filter ::
  "runtime \<Rightarrow> ifc_file \<Rightarrow> facet \<Rightarrow> exn + element list option \<times> facet" where
  "Entity_filter rt file self =
     (case bnd (Entity_results rt file) (\<lambda>results.
             bnd (lift_res results) (\<lambda>rs.
             bnd (attr_truthy ''predefinedType'') (\<lambda>given. ret (rs, given)))) (attrs self) of
        Inl e \<Rightarrow> Inl e
      | Inr ((rs, given), s) \<Rightarrow>
          if given then
            (case passing rt (self\<lparr>attrs := s\<rparr>) rs of
               Inl e \<Rightarrow> Inl e
             | Inr (keep, self') \<Rightarrow> Inr (Some keep, self'))
          else Inr (Some rs, self\<lparr>attrs := s\<rparr>))"

text \<open>\<^verbatim>\<open>self.filter(ifc_file, elements)\<close>: \<open>None\<close> is Python's \<^verbatim>\<open>None\<close>. Entity overrides the
  method of the base class, and so does Classification, with a body that is
  \<^verbatim>\<open>pass\<close>.\<close>

definition facet_filter ::
  "runtime \<Rightarrow> ifc_file \<Rightarrow> facet \<Rightarrow> element list \<Rightarrow> exn + element list option \<times> facet" where
  "facet_filter rt file self elements =
     (case cls self of
        Entity \<Rightarrow> Entity_filter rt file self
      | Classification \<Rightarrow> Inr (None, self)
      | _ \<Rightarrow>
         (case passing rt self elements of
            Inl e \<Rightarrow> Inl e
          | Inr (keep, self') \<Rightarrow> Inr (Some keep, self')))"

section \<open>Sample elements\<close>

text \<open>An \<^verbatim>\<open>IfcWall\<close> with nothing attached, to build concrete elements from.\<close>

definition bare_wall :: element where
  "bare_wall =
     \<lparr>is_a = ''IfcWall'', predefined_type = VNone, get_type = None, attributes = [],
      get_info = [(''id'', VInt 1), (''type'', VStr ''IfcWall'')],
      get_argument_index = (\<lambda>n. 0), attribute_type = (\<lambda>i. Some ''STRING''),
      inverse_attribute_names = [], get_references = [], get_aggregate = None,
      HasAssignments = [], get_container = None, Nests = None, get_psets = [],
      get_material = None\<rparr>"

text \<open>An \<^verbatim>\<open>IfcSlab\<close>, and a wall whose attribute \<^verbatim>\<open>IsExternal\<close> is \<^verbatim>\<open>True\<close>.\<close>

definition bare_slab :: element where
  "bare_slab = bare_wall\<lparr>is_a := ''IfcSlab''\<rparr>"

definition external_wall :: element where
  "external_wall = bare_wall\<lparr>attributes := [(''IsExternal'', VBool True)]\<rparr>"

text \<open>\<^verbatim>\<open>Entity()\<close>, and what \<^verbatim>\<open>Entity().parse\<close> makes of a fragment that carries
  \<^verbatim>\<open>@minOccurs\<close> and \<^verbatim>\<open>@maxOccurs\<close>: \<^verbatim>\<open>Facet.parse\<close> binds every key it is given.\<close>

definition Entity_default :: facet where
  "Entity_default = Entity_init (PVal (VStr ''IFCWALL'')) (PVal VNone) (PVal VNone)"

definition entity_with_occurs :: "pyval \<Rightarrow> pyval \<Rightarrow> facet" where
  "entity_with_occurs mn mx =
     \<lparr>cls = Entity,
      attrs = [(''name'', PVal (VStr ''IFCWALL'')), (''predefinedType'', PVal VNone),
               (''instructions'', PVal VNone), (''minOccurs'', PVal mn),
               (''maxOccurs'', PVal mx)]\<rparr>"

text \<open>\<^verbatim>\<open>Attribute(name="IsExternal", value=Restriction(options, "enumeration", "bool"))\<close>\<close>

definition is_external :: "pyval list \<Rightarrow> facet" where
  "is_external opts =
     Attribute_init (PVal (VStr ''IsExternal''))
       (PRestr \<lparr>type = Some (VStr ''enumeration''), base = Some (VStr ''bool''),
                options = Some (VList opts)\<rparr>)
       (PVal VNone) (PVal VNone) (PVal VNone)"

text \<open>\<^verbatim>\<open>Attribute(name="Name", minOccurs=mn, maxOccurs=mx)\<close>\<close>

definition name_required :: "pyval \<Rightarrow> pyval \<Rightarrow> facet" where
  "name_required mn mx =
     Attribute_init (PVal (VStr ''Name'')) (PVal VNone) (PVal mn) (PVal mx) (PVal VNone)"

text \<open>A storey whose \<^verbatim>\<open>Elevation\<close> is the float \<open>x\<close>, and a wall with one property set
  that holds the \<^verbatim>\<open>IfcReal\<close> property \<^verbatim>\<open>Offset\<close> of value \<open>x\<close>, without a unit.\<close>

definition storey_at :: "rat \<Rightarrow> element" where
  "storey_at x =
     bare_wall\<lparr>is_a := ''IfcBuildingStorey'', attributes := [(''Elevation'', VFloat x)]\<rparr>"

definition wall_with_offset :: "rat \<Rightarrow> element" where
  "wall_with_offset x =
     bare_wall\<lparr>get_psets :=
       [(''Pset_Custom'',
         \<lparr>pset_props = [(''id'', VInt 7), (''Offset'', VFloat x)],
          HasProperties =
            Some [\<lparr>prop_Name = VStr ''Offset'', is_single_value = True,
                   NominalValue = Some \<lparr>data_type = ''IfcReal'', wrappedValue = VFloat x\<rparr>,
                   si_value = None\<rparr>]\<rparr>)]\<rparr>"

text \<open>\<^verbatim>\<open>Attribute(name="Elevation", value=s)\<close> and
  \<^verbatim>\<open>Property(propertySet="Pset_Custom", name="Offset", value=s, measure="IfcReal")\<close>\<close>

definition elevation_is :: "string \<Rightarrow> facet" where
  "elevation_is s =
     Attribute_init (PVal (VStr ''Elevation'')) (PVal (VStr s)) (PVal VNone) (PVal VNone)
       (PVal VNone)"

definition offset_is :: "string \<Rightarrow> facet" where
  "offset_is s =
     Property_init (PVal (VStr ''Pset_Custom'')) (PVal (VStr ''Offset'')) (PVal (VStr s))
       (PVal (VStr ''IfcReal'')) (PVal VNone) (PVal VNone) (PVal VNone) (PVal VNone)"

section \<open>What an evaluation may change, and what it may depend on\<close>

text \<open>The only assignment to a facet or a Restriction during evaluation is the one in
  the first branch of \<^verbatim>\<open>Restriction.__eq__\<close>. \<open>lowered r\<close> is \<open>r\<close> after that assignment:
  the options of an enumeration with base \<^verbatim>\<open>bool\<close> in lower case, any other restriction
  as it is.\<close>

definition lowered :: "restriction \<Rightarrow> restriction" where
  "lowered r =
     (if type r = Some (VStr ''enumeration'') \<and> base r = Some (VStr ''bool'') then
        (case options r of
           Some opts \<Rightarrow>
             (case lower_all opts of
                Inr ls \<Rightarrow> r\<lparr>options := Some (VList ls)\<rparr>
              | Inl e \<Rightarrow> r)
         | None \<Rightarrow> r)
      else r)"

text \<open>\<open>r'\<close> is \<open>r\<close>, untouched or lowered.\<close>

definition restr_le :: "restriction \<Rightarrow> restriction \<Rightarrow> bool" where
  "restr_le r r' = (r' = r \<or> r' = lowered r)"

text \<open>\<open>r\<close> and \<open>r'\<close> are the same restriction once lowered.\<close>

definition restr_eqv :: "restriction \<Rightarrow> restriction \<Rightarrow> bool" where
  "restr_eqv r r' = (lowered r = lowered r')"

text \<open>A relation on restrictions, taken to the values of attributes: plain values are
  equal, restrictions are related, lists of restrictions are related one by one.\<close>

definition param_rel :: "(restriction \<Rightarrow> restriction \<Rightarrow> bool) \<Rightarrow> param \<Rightarrow> param \<Rightarrow> bool" where
  "param_rel P p q =
     (case (p, q) of
        (PVal x, PVal y) \<Rightarrow> x = y
      | (PRestr r, PRestr r') \<Rightarrow> P r r'
      | (PList rs, PList rs') \<Rightarrow> list_all2 P rs rs'
      | _ \<Rightarrow> False)"

text \<open>Two attribute lists with the same names in the same order, the values related.\<close>

definition keyed ::
  "(param \<Rightarrow> param \<Rightarrow> bool) \<Rightarrow> (string \<times> param) list \<Rightarrow> (string \<times> param) list \<Rightarrow> bool" where
  "keyed P s t = list_all2 (\<lambda>a b. fst a = fst b \<and> P (snd a) (snd b)) s t"

text \<open>\<open>g\<close> is the facet \<open>f\<close> but for restrictions that were lowered: the class, the names
  of the attributes and every plain value are those of \<open>f\<close>, and every Restriction is
  the one of \<open>f\<close>, untouched or lowered.\<close>

definition facet_le :: "facet \<Rightarrow> facet \<Rightarrow> bool" where
  "facet_le f g = (cls g = cls f \<and> keyed (param_rel restr_le) (attrs f) (attrs g))"

text \<open>A computation honours a relation \<open>R\<close> on attribute lists: from related lists it
  raises the same exception, or returns the same value and leaves related lists.\<close>

definition sim ::
  "((string \<times> param) list \<Rightarrow> (string \<times> param) list \<Rightarrow> bool) \<Rightarrow> 'a M \<Rightarrow> bool" where
  "sim R m = (\<forall>s t. R s t \<longrightarrow> rel_sum (=) (rel_prod (=) R) (m s) (m t))"

text \<open>Reading and comparing the attributes named in \<open>N\<close> respects \<open>R\<close>.\<close>

definition honours ::
  "runtime \<Rightarrow> ((string \<times> param) list \<Rightarrow> (string \<times> param) list \<Rightarrow> bool) \<Rightarrow> string set \<Rightarrow> bool" where
  "honours rt R N =
     (\<forall>n\<in>N. (\<forall>v. sim R (eq_attr rt n v)) \<and> sim R (attr_truthy n) \<and> sim R (attr_str n))"

text \<open>The attributes that the checks of the five classes with cardinality read.\<close>

definition check_names :: "string set" where
  "check_names =
     {''name'', ''value'', ''system'', ''entity'', ''relation'', ''propertySet'', ''measure''}"

text \<open>Two attribute lists that agree on every attribute but \<^verbatim>\<open>minOccurs\<close> and
  \<^verbatim>\<open>maxOccurs\<close>.\<close>

definition same_but_cardinality ::
  "(string \<times> param) list \<Rightarrow> (string \<times> param) list \<Rightarrow> bool" where
  "same_but_cardinality s t =
     (\<forall>n. n \<noteq> ''minOccurs'' \<and> n \<noteq> ''maxOccurs'' \<longrightarrow> map_of s n = map_of t n)"

text \<open>A computation settles: where it returns, it has changed the attributes by
  lowering only, and run again on the attributes it left, or on those lowered
  further, it returns the same value and changes nothing.\<close>

definition settles :: "'a M \<Rightarrow> bool" where
  "settles m =
     (\<forall>s a s'. m s = Inr (a, s') \<longrightarrow>
        keyed (param_rel restr_le) s s'
        \<and> (\<forall>t. keyed (param_rel restr_le) s' t \<longrightarrow> m t = Inr (a, t)))"

section \<open>Lemmas: computations respect relations on the attributes\<close>

text \<open>A computation built from \<open>ret\<close>, \<open>raise\<close>, \<open>bnd\<close> and the three ways to look at
  an attribute respects every relation that these three respect. Each \<^verbatim>\<open>__call__\<close> is
  built that way, loops by induction.\<close>

lemma sim_ret: "sim R (ret x)" 
  by (simp add: sim_def ret_def)

lemma sim_raise: "sim R (raise e)"
  by (simp add: sim_def raise_def)

lemma sim_lift_res: "sim R (lift_res r)"
  by (cases r) (simp_all add: sim_def lift_res_def)

lemma sim_bnd: "sim R m \<Longrightarrow> (\<And>x. sim R (f x)) \<Longrightarrow> sim R (bnd m f)"
  unfolding sim_def bnd_def
proof (intro allI impI)
  fix s t assume m: "\<forall>s t. R s t \<longrightarrow> rel_sum (=) (rel_prod (=) R) (m s) (m t)"
    and f: "\<And>x. \<forall>s t. R s t \<longrightarrow> rel_sum (=) (rel_prod (=) R) (f x s) (f x t)"
    and R: "R s t"
  from m R have ms: "rel_sum (=) (rel_prod (=) R) (m s) (m t)" by blast
  show "rel_sum (=) (rel_prod (=) R)
          (case m s of Inl e \<Rightarrow> Inl e | Inr (x, s') \<Rightarrow> f x s')
          (case m t of Inl e \<Rightarrow> Inl e | Inr (x, s') \<Rightarrow> f x s')"
  proof (cases "m s")
    case (Inl a)
    with ms show ?thesis by (cases "m t") auto
  next
    case (Inr a)
    with ms f show ?thesis by (cases "m t"; cases a) auto
  qed
qed

lemma sim_if: "(c \<Longrightarrow> sim R a) \<Longrightarrow> (\<not> c \<Longrightarrow> sim R b) \<Longrightarrow> sim R (if c then a else b)"
  by simp

lemma sim_eq_attr: "honours rt R N \<Longrightarrow> n \<in> N \<Longrightarrow> sim R (eq_attr rt n v)"
  by (simp add: honours_def)

lemma sim_attr_truthy: "honours rt R N \<Longrightarrow> n \<in> N \<Longrightarrow> sim R (attr_truthy n)"
  by (simp add: honours_def)

lemma sim_attr_str: "honours rt R N \<Longrightarrow> n \<in> N \<Longrightarrow> sim R (attr_str n)"
  by (simp add: honours_def)

lemmas sim_intros = sim_ret sim_raise sim_lift_res sim_bnd sim_eq_attr sim_attr_truthy sim_attr_str

lemma sim_select_items: "honours rt R N \<Longrightarrow> n \<in> N \<Longrightarrow> sim R (select_items rt n kvs)"
  by (induction kvs) (auto intro!: sim_intros)

lemma sim_eq_any: "honours rt R N \<Longrightarrow> n \<in> N \<Longrightarrow> sim R (eq_any rt n vs)"
  by (induction vs) (auto intro!: sim_intros)

lemma sim_eq_first: "honours rt R N \<Longrightarrow> n \<in> N \<Longrightarrow> sim R (eq_first rt n vs)"
  by (induction vs) (auto intro!: sim_intros)

lemma sim_value_differs:
  "honours rt R N \<Longrightarrow> ''value'' \<in> N \<Longrightarrow> sim R (value_differs rt c v)"
  unfolding value_differs_def
  by (auto intro!: sim_intros split: option.splits)

lemma sim_first_mismatch:
  "honours rt R N \<Longrightarrow> ''value'' \<in> N \<Longrightarrow> sim R (first_mismatch rt c vs)"
  by (induction vs) (auto intro!: sim_intros sim_value_differs)

lemma sim_case_option:
  "(x = None \<Longrightarrow> sim R a) \<Longrightarrow> (\<And>y. x = Some y \<Longrightarrow> sim R (b y)) \<Longrightarrow>
   sim R (case x of None \<Rightarrow> a | Some y \<Rightarrow> b y)"
  by (cases x) simp_all

lemma sim_Let: "sim R (f x) \<Longrightarrow> sim R (Let x f)"
  by simp

lemmas sim_struct = sim_ret sim_raise sim_lift_res sim_bnd sim_if sim_case_option sim_Let

lemma sim_attribute_candidates:
  assumes "honours rt R N" "''name'' \<in> N"
  shows "sim R (attribute_candidates rt e)"
  unfolding attribute_candidates_def
  by (intro sim_struct sim_select_items [OF assms] sim_attr_str [OF assms])

lemma sim_Attribute_check:
  assumes h: "honours rt R N" and n: "''name'' \<in> N" and v: "''value'' \<in> N"
  shows "sim R (Attribute_check rt e)"
  unfolding Attribute_check_def
  by (intro sim_struct sim_attribute_candidates [OF h n] sim_first_mismatch [OF h v]
        sim_attr_truthy [OF h v])

lemma sim_Classification_check:
  assumes h: "honours rt R N" and v: "''value'' \<in> N" and y: "''system'' \<in> N"
  shows "sim R (Classification_check rt e)"
  unfolding Classification_check_def
  by (intro sim_struct sim_eq_any [OF h v] sim_eq_any [OF h y]
        sim_attr_truthy [OF h v] sim_attr_truthy [OF h y])

lemma sim_climb:
  "honours rt R N \<Longrightarrow> ''entity'' \<in> N \<Longrightarrow> sim R (climb rt w anc)"
  by (induction rt w anc rule: climb.induct)
     (simp_all add: sim_ret sim_bnd sim_eq_attr)

lemma sim_part_of_chain:
  assumes h: "honours rt R N" and n: "''entity'' \<in> N"
  shows "sim R (part_of_chain rt w x)"
  unfolding part_of_chain_def
  by (intro sim_struct sim_climb [OF h n] sim_attr_truthy [OF h n])

lemma sim_part_of_one:
  assumes h: "honours rt R N" and n: "''entity'' \<in> N"
  shows "sim R (part_of_one rt w x)"
  unfolding part_of_one_def
  by (intro sim_struct sim_eq_attr [OF h n] sim_attr_truthy [OF h n])

lemma sim_PartOf_check:
  assumes h: "honours rt R N" and n: "''entity'' \<in> N" and r: "''relation'' \<in> N"
  shows "sim R (PartOf_check rt e)"
  unfolding PartOf_check_def
  by (intro sim_struct sim_part_of_one [OF h n] sim_part_of_chain [OF h n] sim_eq_attr [OF h r])

lemma sim_resolve_props:
  assumes h: "honours rt R N" and n: "''name'' \<in> N"
  shows "sim R (resolve_props rt p)"
  unfolding resolve_props_def
  by (intro sim_struct sim_select_items [OF h n] sim_attr_str [OF h n])

lemma sim_measure_loop:
  "honours rt R N \<Longrightarrow> ''measure'' \<in> N \<Longrightarrow> sim R (measure_loop rt qs props)"
  by (induction qs arbitrary: props)
     (simp_all add: sim_ret sim_bnd sim_eq_attr split: option.split)

lemma sim_psets_loop:
  assumes h: "honours rt R N" and n: "''name'' \<in> N" and m: "''measure'' \<in> N"
    and v: "''value'' \<in> N"
  shows "sim R (psets_loop rt ps st)"
proof (induction ps arbitrary: st)
  case Nil
  show ?case by (simp add: sim_ret)
next
  case (Cons np rest)
  show ?case
    unfolding psets_loop.simps
    by (intro sim_struct sim_resolve_props [OF h n] sim_measure_loop [OF h m]
          sim_first_mismatch [OF h v] sim_attr_truthy [OF h v] Cons)
qed

lemma sim_selected_psets:
  assumes h: "honours rt R N" and n: "''propertySet'' \<in> N"
  shows "sim R (selected_psets rt e)"
  unfolding selected_psets_def
  by (intro sim_struct sim_select_items [OF h n] sim_attr_str [OF h n])

lemma sim_Property_check:
  assumes h: "honours rt R N" and n: "''name'' \<in> N" and m: "''measure'' \<in> N"
    and v: "''value'' \<in> N" and p: "''propertySet'' \<in> N"
  shows "sim R (Property_check rt e)"
  unfolding Property_check_def
  by (intro sim_struct sim_selected_psets [OF h p] sim_psets_loop [OF h n m v])

lemma sim_Material_check:
  assumes h: "honours rt R N" and v: "''value'' \<in> N"
  shows "sim R (Material_check rt e)"
  unfolding Material_check_def
  by (intro sim_struct sim_eq_first [OF h v] sim_attr_truthy [OF h v])

lemma sim_Entity_call:
  assumes h: "honours rt R N" and n: "''name'' \<in> N" and p: "''predefinedType'' \<in> N"
  shows "sim R (Entity_call rt e)"
  unfolding Entity_call_def
  by (intro sim_struct sim_eq_attr [OF h n] sim_eq_attr [OF h p] sim_attr_truthy [OF h p])

lemma sim_with_cardinality:
  assumes h: "honours rt R N" and a: "''minOccurs'' \<in> N" and b: "''maxOccurs'' \<in> N"
    and c: "sim R check"
  shows "sim R (with_cardinality rt k check)"
  unfolding with_cardinality_def is_optional_def
  by (intro sim_struct sim_eq_attr [OF h a] sim_eq_attr [OF h b] c)

lemma sim_facet_run:
  assumes h: "honours rt R UNIV"
  shows "sim R (facet_run rt c e)"
  unfolding facet_run_def
  by (cases c)
     (simp_all add: sim_with_cardinality [OF h] sim_Entity_call [OF h] sim_Attribute_check [OF h]
        sim_Classification_check [OF h] sim_PartOf_check [OF h] sim_Property_check [OF h]
        sim_Material_check [OF h])

section \<open>Lemmas: what matching does to a Restriction\<close>

lemma py_eq_VStr [simp]: "py_eq x (VStr s) = (x = VStr s)"
  by (cases x) auto

lemma lower_char_idem: "lower_char (lower_char c) = lower_char c"
  by (simp add: lower_char_def)

lemma lower_idem: "lower (lower s) = lower s"
  by (simp add: lower_def lower_char_idem)

lemma mapM_lower_idem:
  "mapM (\<lambda>x. case x of VStr s \<Rightarrow> Inr (VStr (lower s)) | _ \<Rightarrow> Inl AttributeError) xs = Inr ys \<Longrightarrow>
   mapM (\<lambda>x. case x of VStr s \<Rightarrow> Inr (VStr (lower s)) | _ \<Rightarrow> Inl AttributeError) ys = Inr ys"
proof (induction xs arbitrary: ys)
  case Nil
  then show ?case by simp
next
  case (Cons x xs)
  then show ?case
    by (cases x) (auto split: sum.splits simp: lower_idem)
qed

lemma lower_all_idem: "lower_all opts = Inr ls \<Longrightarrow> lower_all (VList ls) = Inr ls"
  by (auto simp: lower_all_def py_iter_def split: sum.splits dest: mapM_lower_idem)

lemma lowered_idem: "lowered (lowered r) = lowered r"
  by (auto simp: lowered_def lower_all_idem split: option.splits sum.splits)

lemma match_by_type_le: "match_by_type rt r v = Inr (b, r') \<Longrightarrow> restr_le r r'"
  by (auto simp: match_by_type_def restr_le_def lowered_def
      split: option.splits sum.splits if_splits pyval.splits list.splits)

lemma Restriction_eq_le: "Restriction_eq rt r v = Inr (b, r') \<Longrightarrow> restr_le r r'"
  by (auto simp: Restriction_eq_def restr_le_def split: if_splits dest: match_by_type_le)

lemma rel_res_refl: "(\<And>x. P x x) \<Longrightarrow> rel_sum (=) (rel_prod (=) P) x x"
  by (cases x) (auto simp: rel_prod.simps)

lemma restr_eqv_refl: "restr_eqv r r"
  by (simp add: restr_eqv_def)

lemma Restriction_eq_lowered:
  "rel_sum (=) (rel_prod (=) restr_eqv) (Restriction_eq rt r v) (Restriction_eq rt (lowered r) v)"
proof (cases "type r = Some (VStr ''enumeration'') \<and> base r = Some (VStr ''bool'')
              \<and> (\<exists>opts ls. options r = Some opts \<and> lower_all opts = Inr ls)")
  case True
  then obtain opts ls where o: "options r = Some opts" "lower_all opts = Inr ls"
    and t: "type r = Some (VStr ''enumeration'')" and b: "base r = Some (VStr ''bool'')"
    by blast
  have l: "lowered r = r\<lparr>options := Some (VList ls)\<rparr>"
    by (simp add: lowered_def t b o)
  have m1: "match_by_type rt r v
      = Inr (py_in (VStr (lower (py_str rt v))) ls, r\<lparr>options := Some (VList ls)\<rparr>)"
    by (simp add: match_by_type_def t b o)
  have m2: "match_by_type rt (lowered r) v
      = Inr (py_in (VStr (lower (py_str rt v))) ls, r\<lparr>options := Some (VList ls)\<rparr>)"
    by (simp add: l match_by_type_def t b lower_all_idem [OF o(2)])
  show ?thesis
    by (simp add: Restriction_eq_def m1 m2 restr_eqv_def l [symmetric] lowered_idem)
next
  case False
  then have "lowered r = r"
    by (auto simp: lowered_def split: option.splits sum.splits)
  then show ?thesis
    by (simp add: rel_res_refl restr_eqv_refl)
qed

lemma Restriction_eq_eqv:
  assumes "restr_eqv r r'"
  shows "rel_sum (=) (rel_prod (=) restr_eqv) (Restriction_eq rt r v) (Restriction_eq rt r' v)"
proof -
  have a: "rel_sum (=) (rel_prod (=) restr_eqv) (Restriction_eq rt r v)
             (Restriction_eq rt (lowered r) v)"
    by (rule Restriction_eq_lowered)
  have b: "rel_sum (=) (rel_prod (=) restr_eqv) (Restriction_eq rt r' v)
             (Restriction_eq rt (lowered r) v)"
    using Restriction_eq_lowered [of rt r' v] assms by (simp add: restr_eqv_def)
  show ?thesis
  proof (cases "Restriction_eq rt (lowered r) v")
    case (Inl e)
    with a b show ?thesis
      by (cases "Restriction_eq rt r v"; cases "Restriction_eq rt r' v") auto
  next
    case (Inr y)
    with a b show ?thesis
      by (cases "Restriction_eq rt r v"; cases "Restriction_eq rt r' v")
         (auto simp: rel_prod.simps restr_eqv_def)
  qed
qed

lemma list_eq_eqv:
  "list_all2 restr_eqv rs rs' \<Longrightarrow>
   rel_sum (=) (rel_prod (=) (list_all2 restr_eqv)) (list_eq rt rs vs) (list_eq rt rs' vs)"
proof (induction rs rs' arbitrary: vs rule: list_all2_induct)
  case Nil
  then show ?case by simp
next
  case (Cons r rs r' rs')
  show ?case
  proof (cases vs)
    case Nil
    with Cons show ?thesis by simp
  next
    case (Cons v vs')
    have h: "rel_sum (=) (rel_prod (=) restr_eqv) (Restriction_eq rt r v) (Restriction_eq rt r' v)"
      by (rule Restriction_eq_eqv) (rule Cons.hyps(1))
    have ih: "rel_sum (=) (rel_prod (=) (list_all2 restr_eqv)) (list_eq rt rs vs') (list_eq rt rs' vs')"
      by (rule Cons.IH)
    show ?thesis
      using h ih Cons.hyps(2)
      by (cases "Restriction_eq rt r v"; cases "Restriction_eq rt r' v";
          cases "list_eq rt rs vs'"; cases "list_eq rt rs' vs'")
         (auto simp: Cons rel_prod.simps)
  qed
qed

lemma param_eq_eqv:
  assumes "param_rel restr_eqv p q"
  shows "rel_sum (=) (rel_prod (=) (param_rel restr_eqv)) (param_eq rt p v) (param_eq rt q v)"
proof (cases p)
  case (PVal x)
  with assms show ?thesis
    by (cases q) (auto simp: param_rel_def param_eq_def)
next
  case (PRestr r)
  with assms obtain r' where q: "q = PRestr r'" and e: "restr_eqv r r'"
    by (cases q) (auto simp: param_rel_def)
  show ?thesis
    using Restriction_eq_eqv [OF e, of rt v]
    by (cases "Restriction_eq rt r v"; cases "Restriction_eq rt r' v")
       (auto simp: PRestr q param_eq_def param_rel_def rel_prod.simps)
next
  case (PList rs)
  with assms obtain rs' where q: "q = PList rs'" and e: "list_all2 restr_eqv rs rs'"
    by (cases q) (auto simp: param_rel_def)
  have len: "length rs = length rs'"
    using e by (rule list_all2_lengthD)
  show ?thesis
  proof (cases v)
    case (VList vs)
    show ?thesis
      using list_eq_eqv [OF e, of rt vs] e
      by (cases "list_eq rt rs vs"; cases "list_eq rt rs' vs")
         (auto simp: PList q VList param_eq_def param_rel_def rel_prod.simps len)
  qed (use e in \<open>auto simp: PList q param_eq_def param_rel_def\<close>)
qed

lemma list_eq_le:
  "list_eq rt rs vs = Inr (b, rs') \<Longrightarrow> list_all2 restr_le rs rs'"
proof (induction rs arbitrary: vs b rs')
  case Nil
  then show ?case by simp
next
  case (Cons r rs)
  have refl: "list_all2 restr_le rs rs"
    by (simp add: list_all2_same restr_le_def)
  show ?case
  proof (cases vs)
    case Nil
    with Cons.prems show ?thesis by (auto simp: list_all2_same restr_le_def)
  next
    case (Cons v vs')
    with Cons.prems Cons.IH refl show ?thesis
      by (auto split: sum.splits if_splits prod.splits dest: Restriction_eq_le)
  qed
qed

lemma param_eq_le:
  "param_eq rt p v = Inr (b, p') \<Longrightarrow> param_rel restr_le p p'"
  by (cases p)
     (auto simp: param_eq_def param_rel_def list_all2_same restr_le_def
        split: sum.splits pyval.splits if_splits dest: Restriction_eq_le list_eq_le
        dest!: Restriction_eq_le [unfolded restr_le_def])

section \<open>Lemmas: attribute lists related name by name\<close>

lemma update_same: "map_of s n = Some p \<Longrightarrow> AList.update n p s = s"
  by (induction s) (auto split: if_splits)

lemma keyed_map_of: "keyed P s t \<Longrightarrow> rel_option P (map_of s n) (map_of t n)"
  unfolding keyed_def
  by (induction s t rule: list_all2_induct) auto

lemma keyed_update:
  "keyed P s t \<Longrightarrow> P p q \<Longrightarrow> keyed P (AList.update n p s) (AList.update n q t)"
  unfolding keyed_def
  by (induction s t rule: list_all2_induct) auto

lemma keyed_refl: "(\<And>x. P x x) \<Longrightarrow> keyed P s s"
  by (simp add: keyed_def list_all2_same)

lemma keyed_trans:
  assumes tr: "\<And>x y z. P x y \<Longrightarrow> P y z \<Longrightarrow> P x z"
    and st: "keyed P s t" and tu: "keyed P t u"
  shows "keyed P s u"
  using st tu unfolding keyed_def
  by (rule list_all2_trans [rotated]) (auto intro: tr)

lemma restr_le_refl: "restr_le r r"
  by (simp add: restr_le_def)

lemma restr_le_trans: "restr_le a b \<Longrightarrow> restr_le b c \<Longrightarrow> restr_le a c"
  by (auto simp: restr_le_def lowered_idem)

lemma restr_le_eqv: "restr_le a b \<Longrightarrow> restr_eqv a b"
  by (auto simp: restr_le_def restr_eqv_def lowered_idem)

lemma param_le_refl: "param_rel restr_le p p"
  by (cases p) (auto simp: param_rel_def list_all2_same restr_le_refl)

lemma list_le_trans:
  assumes "list_all2 restr_le xs ys" "list_all2 restr_le ys zs"
  shows "list_all2 restr_le xs zs"
  using assms by (rule list_all2_trans [rotated]) (auto intro: restr_le_trans)

lemma param_le_trans:
  "param_rel restr_le p q \<Longrightarrow> param_rel restr_le q r \<Longrightarrow> param_rel restr_le p r"
  by (cases p; cases q; cases r)
     (auto simp: param_rel_def intro: restr_le_trans list_le_trans)

lemma list_le_eqv: "list_all2 restr_le xs ys \<Longrightarrow> list_all2 restr_eqv xs ys"
  by (erule list_all2_mono) (rule restr_le_eqv)

lemma param_le_eqv: "param_rel restr_le p q \<Longrightarrow> param_rel restr_eqv p q"
  by (cases p; cases q) (auto simp: param_rel_def restr_le_eqv list_le_eqv)

lemma attrs_le_eqv: "keyed (param_rel restr_le) s t \<Longrightarrow> keyed (param_rel restr_eqv) s t"
  unfolding keyed_def by (erule list_all2_mono) (auto simp: param_le_eqv)

lemma param_eqv_truthy: "param_rel restr_eqv p q \<Longrightarrow> param_truthy p = param_truthy q"
  by (cases p; cases q) (auto simp: param_rel_def param_truthy_def)

lemma param_eqv_str: "param_rel restr_eqv p q \<Longrightarrow> param_str p = param_str q"
  by (cases p; cases q) (auto simp: param_rel_def param_str_def)

section \<open>Lemmas: the relations that reading and comparing attributes respect\<close>

lemma honours_eqv: "honours rt (keyed (param_rel restr_eqv)) UNIV"
  unfolding honours_def sim_def
proof (intro ballI conjI allI impI)
  fix n v s t assume k: "keyed (param_rel restr_eqv) s t"
  show "rel_sum (=) (rel_prod (=) (keyed (param_rel restr_eqv))) (eq_attr rt n v s) (eq_attr rt n v t)"
  proof (cases "map_of s n")
    case None
    with keyed_map_of [OF k, of n] show ?thesis by (simp add: eq_attr_def)
  next
    case (Some p)
    with keyed_map_of [OF k, of n] obtain q where q: "map_of t n = Some q"
      and pq: "param_rel restr_eqv p q"
      by (cases "map_of t n") auto
    show ?thesis
      using param_eq_eqv [OF pq, of rt v] k
      by (cases "param_eq rt p v"; cases "param_eq rt q v")
         (auto simp: eq_attr_def Some q rel_prod.simps intro: keyed_update)
  qed
next
  fix n s t assume k: "keyed (param_rel restr_eqv) s t"
  show "rel_sum (=) (rel_prod (=) (keyed (param_rel restr_eqv))) (attr_truthy n s) (attr_truthy n t)"
    using keyed_map_of [OF k, of n] k
    by (cases "map_of s n"; cases "map_of t n")
       (auto simp: attr_truthy_def rel_prod.simps param_eqv_truthy)
  show "rel_sum (=) (rel_prod (=) (keyed (param_rel restr_eqv))) (attr_str n s) (attr_str n t)"
    using keyed_map_of [OF k, of n] k
    by (cases "map_of s n"; cases "map_of t n")
       (auto simp: attr_str_def rel_prod.simps param_eqv_str)
qed

lemma sim_invariant:
  "(\<And>s a s'. I s \<Longrightarrow> m s = Inr (a, s') \<Longrightarrow> I s') \<Longrightarrow> sim (\<lambda>s t. t = s \<and> I s) m"
  unfolding sim_def
proof (intro allI impI)
  fix s t assume h: "\<And>s a s'. I s \<Longrightarrow> m s = Inr (a, s') \<Longrightarrow> I s'" and "t = s \<and> I s"
  then show "rel_sum (=) (rel_prod (=) (\<lambda>s t. t = s \<and> I s)) (m s) (m t)"
    by (cases "m s") (auto simp: rel_prod.simps)
qed

lemma sim_invariantD:
  "sim (\<lambda>s t. t = s \<and> I s) m \<Longrightarrow> I s \<Longrightarrow> m s = Inr (a, s') \<Longrightarrow> I s'"
  unfolding sim_def
  by (drule spec [of _ s], drule spec [of _ s]) (auto simp: rel_prod.simps)

lemma honours_le: "honours rt (\<lambda>s t. t = s \<and> keyed (param_rel restr_le) s0 s) UNIV"
  unfolding honours_def
proof (intro ballI conjI allI)
  fix n v
  show "sim (\<lambda>s t. t = s \<and> keyed (param_rel restr_le) s0 s) (eq_attr rt n v)"
  proof (rule sim_invariant)
    fix s a s' assume k: "keyed (param_rel restr_le) s0 s" and e: "eq_attr rt n v s = Inr (a, s')"
    from e obtain p p' where p: "map_of s n = Some p" and pe: "param_eq rt p v = Inr (a, p')"
      and s': "s' = AList.update n p' s"
      by (auto simp: eq_attr_def split: option.splits sum.splits)
    have "keyed (param_rel restr_le) (AList.update n p s) (AList.update n p' s)"
      by (rule keyed_update) (auto intro: keyed_refl param_le_refl param_eq_le [OF pe])
    then have "keyed (param_rel restr_le) s s'"
      by (simp add: update_same [OF p] s')
    with k show "keyed (param_rel restr_le) s0 s'"
      by (rule keyed_trans [rotated]) (rule param_le_trans)
  qed
next
  fix n
  show "sim (\<lambda>s t. t = s \<and> keyed (param_rel restr_le) s0 s) (attr_truthy n)"
    by (rule sim_invariant) (auto simp: attr_truthy_def split: option.splits)
  show "sim (\<lambda>s t. t = s \<and> keyed (param_rel restr_le) s0 s) (attr_str n)"
    by (rule sim_invariant) (auto simp: attr_str_def split: option.splits)
qed

lemma honours_keep:
  "k \<notin> N \<Longrightarrow> honours rt (\<lambda>s t. t = s \<and> map_of s k = Some p) N"
  unfolding honours_def
proof (intro ballI conjI allI)
  fix n v assume "k \<notin> N" "n \<in> N"
  then have kn: "k \<noteq> n" by blast
  show "sim (\<lambda>s t. t = s \<and> map_of s k = Some p) (eq_attr rt n v)"
    by (rule sim_invariant)
       (use kn in \<open>auto simp: eq_attr_def update_conv' split: option.splits sum.splits\<close>)
  show "sim (\<lambda>s t. t = s \<and> map_of s k = Some p) (attr_truthy n)"
    by (rule sim_invariant) (auto simp: attr_truthy_def split: option.splits)
  show "sim (\<lambda>s t. t = s \<and> map_of s k = Some p) (attr_str n)"
    by (rule sim_invariant) (auto simp: attr_str_def split: option.splits)
qed

lemma check_names_not_cardinality:
  "n \<in> check_names \<Longrightarrow> n \<noteq> ''minOccurs'' \<and> n \<noteq> ''maxOccurs''"
  unfolding check_names_def by fastforce

lemma same_but_cardinality_update:
  "same_but_cardinality s t \<Longrightarrow>
   same_but_cardinality (AList.update n p s) (AList.update n p t)"
  by (simp add: same_but_cardinality_def update_conv')

lemma honours_frame: "honours rt same_but_cardinality check_names"
  unfolding honours_def sim_def
proof (intro ballI conjI allI impI)
  fix n v s t assume n: "n \<in> check_names" and r: "same_but_cardinality s t"
  then have eq: "map_of t n = map_of s n"
    using check_names_not_cardinality [OF n] by (simp add: same_but_cardinality_def)
  show "rel_sum (=) (rel_prod (=) same_but_cardinality) (eq_attr rt n v s) (eq_attr rt n v t)"
  proof (cases "map_of s n")
    case None
    then show ?thesis by (simp add: eq_attr_def eq)
  next
    case (Some p)
    then show ?thesis
      by (cases "param_eq rt p v")
         (auto simp: eq_attr_def eq same_but_cardinality_update [OF r])
  qed
next
  fix n s t assume n: "n \<in> check_names" and r: "same_but_cardinality s t"
  then have eq: "map_of t n = map_of s n"
    using check_names_not_cardinality [OF n] by (simp add: same_but_cardinality_def)
  show "rel_sum (=) (rel_prod (=) same_but_cardinality) (attr_truthy n s) (attr_truthy n t)"
    using r by (cases "map_of s n") (simp_all add: attr_truthy_def eq)
  show "rel_sum (=) (rel_prod (=) same_but_cardinality) (attr_str n s) (attr_str n t)"
    using r by (cases "map_of s n") (simp_all add: attr_str_def eq)
qed

section \<open>Lemmas: cardinality\<close>

lemma eq_attr_PVal:
  "map_of s n = Some (PVal x) \<Longrightarrow> eq_attr rt n v s = Inr (py_eq v x, s)"
  by (simp add: eq_attr_def param_eq_def update_same)

lemma is_optional_PVal:
  "map_of s ''minOccurs'' = Some (PVal mn) \<Longrightarrow> map_of s ''maxOccurs'' = Some (PVal mx) \<Longrightarrow>
   is_optional rt s = Inr (py_eq (VInt 0) mn \<and> \<not> py_eq (VInt 0) mx, s)"
  by (simp add: is_optional_def bnd_def ret_def eq_attr_PVal)

lemma with_cardinality_optional:
  "is_optional rt s = Inr (True, s) \<Longrightarrow>
   with_cardinality rt c check s = Inr (\<lparr>result_class = c, is_pass = True, reason = VNone\<rparr>, s)"
  by (simp add: with_cardinality_def bnd_def ret_def)

lemma facet_run_cardinality:
  "c \<noteq> Entity \<Longrightarrow>
   \<exists>check. facet_run rt c e = with_cardinality rt c check
      \<and> (\<forall>R N. honours rt R N \<longrightarrow> check_names \<subseteq> N \<longrightarrow> sim R check)"
proof (cases c)
  case Attribute
  then show ?thesis
    by (auto simp: facet_run_def check_names_def intro!: exI [of _ "Attribute_check rt e"]
          sim_Attribute_check)
next
  case Classification
  then show ?thesis
    by (auto simp: facet_run_def check_names_def intro!: exI [of _ "Classification_check rt e"]
          sim_Classification_check)
next
  case PartOf
  then show ?thesis
    by (auto simp: facet_run_def check_names_def intro!: exI [of _ "PartOf_check rt e"]
          sim_PartOf_check)
next
  case Property
  then show ?thesis
    by (auto simp: facet_run_def check_names_def intro!: exI [of _ "Property_check rt e"]
          sim_Property_check)
next
  case Material
  then show ?thesis
    by (auto simp: facet_run_def check_names_def intro!: exI [of _ "Material_check rt e"]
          sim_Material_check)
qed simp

lemma check_keeps_maxOccurs:
  assumes c: "\<And>R N. honours rt R N \<Longrightarrow> check_names \<subseteq> N \<Longrightarrow> sim R check"
    and m: "map_of s ''maxOccurs'' = Some p" and r: "check s = Inr (a, s')"
  shows "map_of s' ''maxOccurs'' = Some p"
proof -
  have "''maxOccurs'' \<notin> check_names"
    using check_names_not_cardinality by blast
  then have "honours rt (\<lambda>s t. t = s \<and> map_of s ''maxOccurs'' = Some p) check_names"
    by (rule honours_keep)
  then have "sim (\<lambda>s t. t = s \<and> map_of s ''maxOccurs'' = Some p) check"
    by (rule c) simp
  then show ?thesis
    using m r by (rule sim_invariantD)
qed

lemma with_cardinality_required:
  assumes o: "is_optional rt s = Inr (False, s)"
    and w: "with_cardinality rt c check s = Inr (r, s')"
  shows "\<exists>passed rs s2 prohibited.
           check s = Inr ((Some passed, rs), s2)
           \<and> eq_attr rt ''maxOccurs'' (VInt 0) s2 = Inr (prohibited, s')
           \<and> r = (if prohibited
                   then \<lparr>result_class = c, is_pass = \<not> passed, reason = reason1 ''PROHIBITED''\<rparr>
                   else \<lparr>result_class = c, is_pass = passed, reason = rs\<rparr>)"
proof -
  from w o obtain outcome s2 where ch: "check s = Inr (outcome, s2)"
    by (cases "check s") (auto simp: with_cardinality_def bnd_def)
  from w o ch obtain prohibited s3 where
    eq: "eq_attr rt ''maxOccurs'' (VInt 0) s2 = Inr (prohibited, s3)"
    by (cases "eq_attr rt ''maxOccurs'' (VInt 0) s2") (auto simp: with_cardinality_def bnd_def)
  from w o ch eq obtain passed where p: "fst outcome = Some passed"
    by (cases "fst outcome") (auto simp: with_cardinality_def bnd_def raise_def)
  from w o ch eq p have "s' = s3"
    and "r = (if prohibited
              then \<lparr>result_class = c, is_pass = \<not> passed, reason = reason1 ''PROHIBITED''\<rparr>
              else \<lparr>result_class = c, is_pass = passed, reason = snd outcome\<rparr>)"
    by (auto simp: with_cardinality_def bnd_def ret_def split: if_splits)
  with ch eq p show ?thesis
    by (cases outcome) auto
qed

section \<open>Lemmas: evaluation on concrete inputs, and the tolerance test\<close>

lemmas monad_defs = ret_def raise_def bnd_def lift_res_def attr_truthy_def attr_str_def eq_attr_def
  param_eq_def param_truthy_def param_str_def

lemmas call_defs = facet_call_def facet_run_def with_cardinality_def is_optional_def
  reason1_def reason2_def

lemmas attribute_defs = Attribute_init_def Attribute_check_def attribute_candidates_def
  getattr_or_None_def falsey_or_invalid_def value_differs_def isinstance_entity_def
  isinstance_str_def differs_from_cast_def

lemmas cast_defs = cast_to_value_def except_ValueError_def builtins_dict_def py_float_def

lemmas sample_defs = sample_rt_def sample_int_def bare_wall_def bare_slab_def external_wall_def

lemma negative_expected_never_matches:
  "c < 0 \<Longrightarrow> differs_from_cast (VFloat x) (VFloat c)"
proof -
  assume "c < 0"
  then have "c * (1 + 1 / 1000000) < c * (1 - 1 / 1000000)"
    by (simp add: mult_less_cancel_left)
  then show ?thesis
    by (auto simp: differs_from_cast_def)
qed

lemma nonnegative_expected_tolerance:
  "0 \<le> c \<Longrightarrow>
   differs_from_cast (VFloat x) (VFloat c) = (\<bar>x - c\<bar> > c / 1000000)"
  by (auto simp: differs_from_cast_def algebra_simps abs_if)

lemmas property_defs = Property_init_def Property_check_def selected_psets_def
  resolve_props_def pset_entity_properties_def py_in_def

section \<open>Lemmas: a call changes a facet by lowering only, and lowering changes no result\<close>

lemma restr_eqv_sym: "restr_eqv a b \<Longrightarrow> restr_eqv b a"
  by (simp add: restr_eqv_def)

lemma restr_eqv_trans: "restr_eqv a b \<Longrightarrow> restr_eqv b c \<Longrightarrow> restr_eqv a c"
  by (simp add: restr_eqv_def)

lemma list_eqv_sym: "list_all2 restr_eqv xs ys \<Longrightarrow> list_all2 restr_eqv ys xs"
  by (simp add: list_all2_conv_all_nth restr_eqv_def)

lemma list_eqv_trans:
  assumes "list_all2 restr_eqv xs ys" "list_all2 restr_eqv ys zs"
  shows "list_all2 restr_eqv xs zs"
  using assms by (rule list_all2_trans [rotated]) (auto intro: restr_eqv_trans)

lemma param_eqv_sym: "param_rel restr_eqv p q \<Longrightarrow> param_rel restr_eqv q p"
  by (cases p; cases q) (auto simp: param_rel_def restr_eqv_sym list_eqv_sym)

lemma param_eqv_trans:
  "param_rel restr_eqv p q \<Longrightarrow> param_rel restr_eqv q r \<Longrightarrow> param_rel restr_eqv p r"
  by (cases p; cases q; cases r)
     (auto simp: param_rel_def intro: restr_eqv_trans list_eqv_trans)

lemma param_eqv_refl: "param_rel restr_eqv p p"
  by (cases p) (auto simp: param_rel_def restr_eqv_def list_all2_same)

lemma keyed_sym:
  assumes "\<And>x y. P x y \<Longrightarrow> P y x" and "keyed P s t"
  shows "keyed P t s"
  using assms(2) unfolding keyed_def
  by (induction s t rule: list_all2_induct) (auto intro: assms(1))

lemma facet_call_le:
  assumes "facet_call rt f e = Inr (r, g)"
  shows "cls g = cls f \<and> keyed (param_rel restr_le) (attrs f) (attrs g)"
proof -
  from assms obtain s' where run: "facet_run rt (cls f) e (attrs f) = Inr (r, s')"
    and g: "g = f\<lparr>attrs := s'\<rparr>"
    by (auto simp: facet_call_def split: sum.splits)
  have "sim (\<lambda>s t. t = s \<and> keyed (param_rel restr_le) (attrs f) s) (facet_run rt (cls f) e)"
    by (rule sim_facet_run) (rule honours_le)
  moreover have "keyed (param_rel restr_le) (attrs f) (attrs f)"
    by (rule keyed_refl) (rule param_le_refl)
  ultimately have "keyed (param_rel restr_le) (attrs f) s'"
    using run by (rule sim_invariantD)
  then show ?thesis
    by (simp add: g)
qed

lemma facet_call_eqv:
  assumes c: "cls g = cls f" and k: "keyed (param_rel restr_eqv) (attrs f) (attrs g)"
    and r: "facet_call rt f e = Inr (r, f')"
  shows "\<exists>g'. facet_call rt g e = Inr (r, g')"
proof -
  from r obtain s' where run: "facet_run rt (cls f) e (attrs f) = Inr (r, s')"
    by (auto simp: facet_call_def split: sum.splits)
  have "sim (keyed (param_rel restr_eqv)) (facet_run rt (cls f) e)"
    by (rule sim_facet_run) (rule honours_eqv)
  with k have "rel_sum (=) (rel_prod (=) (keyed (param_rel restr_eqv)))
          (facet_run rt (cls f) e (attrs f)) (facet_run rt (cls f) e (attrs g))"
    by (simp add: sim_def)
  with run obtain t' where "facet_run rt (cls f) e (attrs g) = Inr (r, t')"
    by (cases "facet_run rt (cls f) e (attrs g)") (auto simp: rel_prod.simps)
  then show ?thesis
    by (simp add: facet_call_def c)
qed

text \<open>\<^verbatim>\<open>Facet.filter\<close> of the base class keeps the elements on which the facet, as it was
  before the first call, passes, in the order of \<^verbatim>\<open>elements\<close>.\<close>

lemma passing_filter_eqv:
  "passing rt g es = Inr (keep, h) \<Longrightarrow> cls g = cls f \<Longrightarrow>
   keyed (param_rel restr_eqv) (attrs f) (attrs g) \<Longrightarrow>
   keep = filter (\<lambda>e. \<exists>r f'. facet_call rt f e = Inr (r, f') \<and> is_pass r) es"
proof (induction es arbitrary: g keep)
  case Nil
  then show ?case by simp
next
  case (Cons e es)
  from Cons.prems(1) obtain r g' keep' where
    call: "facet_call rt g e = Inr (r, g')"
    and rest: "passing rt g' es = Inr (keep', h)"
    and keep: "keep = (if is_pass r then e # keep' else keep')"
    by (auto split: sum.splits)
  have gf: "keyed (param_rel restr_eqv) (attrs g) (attrs f)"
    using Cons.prems(3) by (rule keyed_sym [rotated]) (rule param_eqv_sym)
  obtain f' where f: "facet_call rt f e = Inr (r, f')"
    using facet_call_eqv [OF Cons.prems(2) [symmetric] gf call] by blast
  have le: "cls g' = cls g \<and> keyed (param_rel restr_le) (attrs g) (attrs g')"
    using call by (rule facet_call_le)
  then have "keyed (param_rel restr_eqv) (attrs g) (attrs g')"
    by (simp add: attrs_le_eqv)
  with Cons.prems(3) have "keyed (param_rel restr_eqv) (attrs f) (attrs g')"
    by (rule keyed_trans [rotated]) (rule param_eqv_trans)
  with rest le Cons.prems(2)
  have "keep' = filter (\<lambda>e. \<exists>r f'. facet_call rt f e = Inr (r, f') \<and> is_pass r) es"
    by (intro Cons.IH) simp_all
  with keep f show ?case
    by simp
qed

lemma facet_filter_passing:
  assumes "cls f \<noteq> Entity" "cls f \<noteq> Classification"
    and "facet_filter rt file f es = Inr (res, g)"
  shows "res = Some (filter (\<lambda>e. \<exists>r f'. facet_call rt f e = Inr (r, f') \<and> is_pass r) es)"
proof -
  from assms obtain keep where p: "passing rt f es = Inr (keep, g)" and res: "res = Some keep"
    by (cases "cls f") (auto simp: facet_filter_def split: sum.splits)
  have "keyed (param_rel restr_eqv) (attrs f) (attrs f)"
    by (rule keyed_refl) (rule param_eqv_refl)
  with p have "keep = filter (\<lambda>e. \<exists>r f'. facet_call rt f e = Inr (r, f') \<and> is_pass r) es"
    by (rule passing_filter_eqv [OF _ refl])
  with res show ?thesis by simp
qed

section \<open>Lemmas: a second evaluation changes nothing\<close>

text \<open>Every check settles: the proof follows the structure of the checks, from the
  three observations of an attribute.\<close>

lemma settlesI:
  assumes "\<And>s a s'. m s = Inr (a, s') \<Longrightarrow> keyed (param_rel restr_le) s s'"
    and "\<And>s a s' t. m s = Inr (a, s') \<Longrightarrow> keyed (param_rel restr_le) s' t \<Longrightarrow> m t = Inr (a, t)"
  shows "settles m"
  using assms unfolding settles_def by blast

lemma settles_le: "settles m \<Longrightarrow> m s = Inr (a, s') \<Longrightarrow> keyed (param_rel restr_le) s s'"
  unfolding settles_def by blast

lemma settles_again:
  "settles m \<Longrightarrow> m s = Inr (a, s') \<Longrightarrow> keyed (param_rel restr_le) s' t \<Longrightarrow> m t = Inr (a, t)"
  unfolding settles_def by blast

lemma attrs_le_refl: "keyed (param_rel restr_le) s s"
  by (rule keyed_refl) (rule param_le_refl)

lemma attrs_le_trans:
  "keyed (param_rel restr_le) s t \<Longrightarrow> keyed (param_rel restr_le) t u \<Longrightarrow>
   keyed (param_rel restr_le) s u"
  by (erule (1) keyed_trans [rotated]) (erule (1) param_le_trans)

lemma settles_ret: "settles (ret x)"
  by (rule settlesI) (auto simp: ret_def attrs_le_refl)

lemma settles_raise: "settles (raise e)"
  by (rule settlesI) (auto simp: raise_def)

lemma settles_lift_res: "settles (lift_res r)"
  by (rule settlesI) (auto simp: lift_res_def attrs_le_refl split: sum.splits)

lemma settles_bnd:
  assumes m: "settles m" and f: "\<And>x. settles (f x)"
  shows "settles (bnd m f)"
proof (rule settlesI)
  fix s b s2 assume r: "bnd m f s = Inr (b, s2)"
  then obtain a s1 where ms: "m s = Inr (a, s1)" and fs: "f a s1 = Inr (b, s2)"
    by (auto simp: bnd_def split: sum.splits)
  have l1: "keyed (param_rel restr_le) s s1"
    using m ms by (rule settles_le)
  have l2: "keyed (param_rel restr_le) s1 s2"
    using f fs by (rule settles_le)
  show "keyed (param_rel restr_le) s s2"
    using l1 l2 by (rule attrs_le_trans)
  fix t assume t: "keyed (param_rel restr_le) s2 t"
  have "m t = Inr (a, t)"
    using m ms by (rule settles_again) (rule attrs_le_trans [OF l2 t])
  moreover have "f a t = Inr (b, t)"
    using f fs t by (rule settles_again)
  ultimately show "bnd m f t = Inr (b, t)"
    by (simp add: bnd_def)
qed

lemma settles_if:
  "(c \<Longrightarrow> settles a) \<Longrightarrow> (\<not> c \<Longrightarrow> settles b) \<Longrightarrow> settles (if c then a else b)"
  by simp

lemma settles_case_option:
  "(x = None \<Longrightarrow> settles a) \<Longrightarrow> (\<And>y. x = Some y \<Longrightarrow> settles (b y)) \<Longrightarrow>
   settles (case x of None \<Rightarrow> a | Some y \<Rightarrow> b y)"
  by (cases x) simp_all

lemma settles_Let: "settles (f x) \<Longrightarrow> settles (Let x f)"
  by simp

text \<open>Matching again, against the restriction left or against it lowered.\<close>

lemma Restriction_eq_again:
  assumes e: "Restriction_eq rt r v = Inr (b, r')" and l: "restr_le r' r''"
  shows "Restriction_eq rt r'' v = Inr (b, r'')"
proof (cases "(truthy v \<or> py_eq v (VInt 0))
              \<and> type r = Some (VStr ''enumeration'') \<and> base r = Some (VStr ''bool'')")
  case True
  with e obtain opts ls where o: "options r = Some opts" "lower_all opts = Inr ls"
    by (auto simp: Restriction_eq_def match_by_type_def split: option.splits sum.splits)
  have lr: "lowered r = r\<lparr>options := Some (VList ls)\<rparr>"
    using True o by (simp add: lowered_def)
  have r': "r' = lowered r" and b: "b = py_in (VStr (lower (py_str rt v))) ls"
    using e True o by (auto simp: Restriction_eq_def match_by_type_def lr)
  from l r' have r'': "r'' = lowered r"
    by (auto simp: restr_le_def lowered_idem)
  show ?thesis
    using True o
    by (simp add: r'' b lr Restriction_eq_def match_by_type_def lower_all_idem [OF o(2)])
next
  case False
  show ?thesis
  proof (cases "truthy v \<or> py_eq v (VInt 0)")
    case guard: True
    with False have ne: "\<not> (type r = Some (VStr ''enumeration'') \<and> base r = Some (VStr ''bool''))"
      by blast
    then have lr: "lowered r = r"
      by (auto simp: lowered_def)
    from e guard ne have "r' = r"
      by (auto simp: Restriction_eq_def match_by_type_def
            split: option.splits sum.splits if_splits pyval.splits list.splits)
    with l lr have "r'' = r"
      by (auto simp: restr_le_def)
    with e \<open>r' = r\<close> show ?thesis by simp
  next
    case noguard: False
    with e have "b = False"
      by (simp add: Restriction_eq_def)
    with noguard show ?thesis
      by (simp add: Restriction_eq_def)
  qed
qed

lemma list_eq_again:
  "list_eq rt rs vs = Inr (b, rs') \<Longrightarrow> list_all2 restr_le rs' rs'' \<Longrightarrow>
   list_eq rt rs'' vs = Inr (b, rs'')"
proof (induction rs arbitrary: vs b rs' rs'')
  case Nil
  then show ?case by auto
next
  case (Cons r rs)
  show ?case
  proof (cases vs)
    case Nil
    with Cons.prems show ?thesis
      by (auto simp: list_all2_Cons1)
  next
    case (Cons v vs')
    from Cons.prems(1) Cons obtain c r' where
      e: "Restriction_eq rt r v = Inr (c, r')"
      by (auto split: sum.splits)
    show ?thesis
    proof (cases c)
      case True
      with Cons.prems(1) Cons e obtain rest where
        le: "list_eq rt rs vs' = Inr (b, rest)" and rs': "rs' = r' # rest"
        by (auto split: sum.splits)
      from Cons.prems(2) rs' obtain r'' rest'' where
        rs'': "rs'' = r'' # rest''" and l1: "restr_le r' r''"
        and l2: "list_all2 restr_le rest rest''"
        by (auto simp: list_all2_Cons1)
      have "Restriction_eq rt r'' v = Inr (True, r'')"
        using e l1 True by (auto dest: Restriction_eq_again)
      moreover have "list_eq rt rest'' vs' = Inr (b, rest'')"
        using le l2 by (rule Cons.IH)
      ultimately show ?thesis
        by (simp add: rs'' Cons)
    next
      case False
      with Cons.prems(1) Cons e have b: "b = False" and rs': "rs' = r' # rs"
        by auto
      from Cons.prems(2) rs' obtain r'' rest'' where
        rs'': "rs'' = r'' # rest''" and l1: "restr_le r' r''"
        by (auto simp: list_all2_Cons1)
      have "Restriction_eq rt r'' v = Inr (False, r'')"
        using e l1 False by (auto dest: Restriction_eq_again)
      then show ?thesis
        by (simp add: rs'' Cons b)
    qed
  qed
qed

lemma param_eq_again:
  assumes e: "param_eq rt p v = Inr (b, p')" and l: "param_rel restr_le p' q"
  shows "param_eq rt q v = Inr (b, q)"
proof (cases p)
  case (PVal x)
  with e l show ?thesis
    by (cases q) (auto simp: param_eq_def param_rel_def)
next
  case (PRestr r)
  with e obtain r' where p': "p' = PRestr r'" and re: "Restriction_eq rt r v = Inr (b, r')"
    by (auto simp: param_eq_def split: sum.splits)
  with l obtain r'' where q: "q = PRestr r''" and rl: "restr_le r' r''"
    by (cases q) (auto simp: param_rel_def)
  show ?thesis
    using Restriction_eq_again [OF re rl] by (simp add: q param_eq_def)
next
  case (PList rs)
  show ?thesis
  proof (cases "\<exists>vs. v = VList vs \<and> length vs = length rs")
    case True
    then obtain vs where v: "v = VList vs" and len: "length vs = length rs"
      by blast
    with e PList obtain rs' where p': "p' = PList rs'" and le: "list_eq rt rs vs = Inr (b, rs')"
      by (auto simp: param_eq_def split: sum.splits)
    with l obtain rs'' where q: "q = PList rs''" and ll: "list_all2 restr_le rs' rs''"
      by (cases q) (auto simp: param_rel_def)
    have "length rs' = length rs"
      using list_eq_le [OF le] by (simp add: list_all2_lengthD)
    with ll have "length rs'' = length vs"
      by (simp add: len list_all2_lengthD [symmetric])
    with list_eq_again [OF le ll] show ?thesis
      by (simp add: q v param_eq_def)
  next
    case False
    with e PList have p': "p' = p" and b: "b = False"
      by (auto simp: param_eq_def split: pyval.splits if_splits)
    with l PList obtain rs'' where q: "q = PList rs''" and ll: "list_all2 restr_le rs rs''"
      by (cases q) (auto simp: param_rel_def)
    from ll have "length rs'' = length rs"
      by (simp add: list_all2_lengthD)
    with False show ?thesis
      by (auto simp: q b param_eq_def split: pyval.splits)
  qed
qed

lemma settles_eq_attr: "settles (eq_attr rt n v)"
proof (rule settlesI)
  fix s a s' assume e: "eq_attr rt n v s = Inr (a, s')"
  then obtain p p' where p: "map_of s n = Some p" and pe: "param_eq rt p v = Inr (a, p')"
    and s': "s' = AList.update n p' s"
    by (auto simp: eq_attr_def split: option.splits sum.splits)
  have "keyed (param_rel restr_le) (AList.update n p s) (AList.update n p' s)"
    by (rule keyed_update) (auto intro: attrs_le_refl param_eq_le [OF pe])
  then show "keyed (param_rel restr_le) s s'"
    by (simp add: update_same [OF p] s')
  fix t assume t: "keyed (param_rel restr_le) s' t"
  have "map_of s' n = Some p'"
    using p by (simp add: s' update_conv')
  with keyed_map_of [OF t, of n] obtain q where q: "map_of t n = Some q"
    and pq: "param_rel restr_le p' q"
    by (cases "map_of t n") auto
  show "eq_attr rt n v t = Inr (a, t)"
    using param_eq_again [OF pe pq] by (simp add: eq_attr_def q update_same)
qed

lemma param_le_truthy: "param_rel restr_le p q \<Longrightarrow> param_truthy q = param_truthy p"
  by (cases p; cases q) (auto simp: param_rel_def param_truthy_def)

lemma param_le_str: "param_rel restr_le p q \<Longrightarrow> param_str q = param_str p"
  by (cases p; cases q) (auto simp: param_rel_def param_str_def)

lemma settles_attr_truthy: "settles (attr_truthy n)"
proof (rule settlesI)
  fix s a s' assume e: "attr_truthy n s = Inr (a, s')"
  then obtain p where p: "map_of s n = Some p" and a: "a = param_truthy p" and s': "s' = s"
    by (auto simp: attr_truthy_def split: option.splits)
  show "keyed (param_rel restr_le) s s'"
    by (simp add: s' attrs_le_refl)
  fix t assume t: "keyed (param_rel restr_le) s' t"
  with keyed_map_of [OF t, of n] p s' obtain q where "map_of t n = Some q"
    and "param_rel restr_le p q"
    by (cases "map_of t n") auto
  then show "attr_truthy n t = Inr (a, t)"
    by (simp add: attr_truthy_def a param_le_truthy)
qed

lemma settles_attr_str: "settles (attr_str n)"
proof (rule settlesI)
  fix s a s' assume e: "attr_str n s = Inr (a, s')"
  then obtain p where p: "map_of s n = Some p" and a: "a = param_str p" and s': "s' = s"
    by (auto simp: attr_str_def split: option.splits)
  show "keyed (param_rel restr_le) s s'"
    by (simp add: s' attrs_le_refl)
  fix t assume t: "keyed (param_rel restr_le) s' t"
  with keyed_map_of [OF t, of n] p s' obtain q where "map_of t n = Some q"
    and "param_rel restr_le p q"
    by (cases "map_of t n") auto
  then show "attr_str n t = Inr (a, t)"
    by (simp add: attr_str_def a param_le_str)
qed

lemmas settles_struct = settles_ret settles_raise settles_lift_res settles_bnd settles_if
  settles_case_option settles_Let settles_eq_attr settles_attr_truthy settles_attr_str

lemma settles_select_items: "settles (select_items rt n kvs)"
  by (induction kvs) (simp_all add: settles_ret settles_bnd settles_eq_attr)

lemma settles_eq_any: "settles (eq_any rt n vs)"
  by (induction vs) (simp_all add: settles_ret settles_bnd settles_eq_attr)

lemma settles_eq_first: "settles (eq_first rt n vs)"
  by (induction vs) (simp_all add: settles_ret settles_bnd settles_eq_attr)

lemma settles_value_differs: "settles (value_differs rt c v)"
  unfolding value_differs_def
  by (intro settles_struct)

lemma settles_first_mismatch: "settles (first_mismatch rt c vs)"
  by (induction vs) (simp_all add: settles_ret settles_bnd settles_value_differs)

lemma settles_attribute_candidates: "settles (attribute_candidates rt e)"
  unfolding attribute_candidates_def
  by (intro settles_struct settles_select_items)

lemma settles_Attribute_check: "settles (Attribute_check rt e)"
  unfolding Attribute_check_def
  by (intro settles_struct settles_attribute_candidates settles_first_mismatch)

lemma settles_Classification_check: "settles (Classification_check rt e)"
  unfolding Classification_check_def
  by (intro settles_struct settles_eq_any)

lemma settles_climb: "settles (climb rt w anc)"
  by (induction rt w anc rule: climb.induct)
     (simp_all add: settles_ret settles_bnd settles_eq_attr)

lemma settles_part_of_chain: "settles (part_of_chain rt w x)"
  unfolding part_of_chain_def
  by (intro settles_struct settles_climb)

lemma settles_part_of_one: "settles (part_of_one rt w x)"
  unfolding part_of_one_def
  by (intro settles_struct)

lemma settles_PartOf_check: "settles (PartOf_check rt e)"
  unfolding PartOf_check_def
  by (intro settles_struct settles_part_of_one settles_part_of_chain)

lemma settles_resolve_props: "settles (resolve_props rt p)"
  unfolding resolve_props_def
  by (intro settles_struct settles_select_items)

lemma settles_measure_loop: "settles (measure_loop rt qs props)"
  by (induction qs arbitrary: props)
     (simp_all add: settles_ret settles_bnd settles_eq_attr split: option.split)

lemma settles_psets_loop: "settles (psets_loop rt ps st)"
proof (induction ps arbitrary: st)
  case Nil
  show ?case by (simp add: settles_ret)
next
  case (Cons np rest)
  show ?case
    unfolding psets_loop.simps
    by (intro settles_struct settles_resolve_props settles_measure_loop
          settles_first_mismatch Cons)
qed

lemma settles_selected_psets: "settles (selected_psets rt e)"
  unfolding selected_psets_def
  by (intro settles_struct settles_select_items)

lemma settles_Property_check: "settles (Property_check rt e)"
  unfolding Property_check_def
  by (intro settles_struct settles_selected_psets settles_psets_loop)

lemma settles_Material_check: "settles (Material_check rt e)"
  unfolding Material_check_def
  by (intro settles_struct settles_eq_first)

lemma settles_Entity_call: "settles (Entity_call rt e)"
  unfolding Entity_call_def
  by (intro settles_struct)

lemma settles_with_cardinality: "settles check \<Longrightarrow> settles (with_cardinality rt k check)"
  unfolding with_cardinality_def is_optional_def
  by (intro settles_struct)

lemma settles_facet_run: "settles (facet_run rt c e)"
  unfolding facet_run_def
  by (cases c)
     (simp_all add: settles_with_cardinality settles_Entity_call settles_Attribute_check
        settles_Classification_check settles_PartOf_check settles_Property_check
        settles_Material_check)

section \<open>Properties of cast_to_value\<close>




section \<open>Properties of Restriction\<close>

text \<open>
  C6 at the input \<^verbatim>\<open>Restriction(options="abc", type="length")\<close>: a string is not the
  list of comparisons that the type \<^verbatim>\<open>length\<close> takes, yet the constructor returns, and
  with none of the three attributes assigned, since \<^verbatim>\<open>length\<close> is missing from the list
  its first test runs through.
\<close>

theorem Restriction_init_length_unchecked:
  "Restriction_init (VStr ''abc'') (VStr ''length'') (VStr ''string'')
     = Inr \<lparr>type = None, base = None, options = None\<rparr>"
  by (simp add: Restriction_init_def py_in_def)

text \<open>For the three types the constructor knows, options of another shape do raise.\<close>

lemma Restriction_init_mismatch_raises:
  "ty \<in> {VStr ''enumeration'', VStr ''bounds'', VStr ''pattern''} \<Longrightarrow>
   \<not> (ty = VStr ''enumeration'' \<and> isinstance_list opts) \<Longrightarrow>
   \<not> (ty = VStr ''bounds'' \<and> isinstance_dict opts) \<Longrightarrow>
   \<not> (ty = VStr ''pattern'' \<and> isinstance_str opts) \<Longrightarrow>
   Restriction_init opts ty bs = Inl (Exception ''Options were not properly defined.'')"
  by (auto simp: Restriction_init_def py_in_def)

text \<open>
  C5 at one fragment of each kind. An enumeration fragment and a pattern fragment as
  \<^verbatim>\<open>parse\<close> reads them (keys \<^verbatim>\<open>enumeration\<close> and \<^verbatim>\<open>pattern\<close>) are parsed, and \<^verbatim>\<open>asdict\<close>
  of the result writes the keys \<^verbatim>\<open>xs:enumeration\<close> and \<^verbatim>\<open>xs:pattern\<close> (the pattern in a
  list), so the fragment that comes back is not the one that went in. A bounds
  fragment and a length fragment make \<^verbatim>\<open>parse\<close> raise AttributeError: the first calls
  \<^verbatim>\<open>append\<close> on the dictionary it has just assigned, the second on the string that
  \<^verbatim>\<open>Restriction()\<close> holds as its options.
\<close>

theorem Restriction_roundtrip_fails:
  "Restriction_parse sample_rt Restriction_default
      (VDict [(''@base'', VStr ''xs:string''),
              (''enumeration'', VList [VDict [(''@value'', VStr ''A'')], VDict [(''@value'', VStr ''B'')]])])
     = Inr \<lparr>type = Some (VStr ''enumeration''), base = Some (VStr ''string''),
            options = Some (VList [VStr ''A'', VStr ''B''])\<rparr>
   \<and> Restriction_asdict sample_rt
        \<lparr>type = Some (VStr ''enumeration''), base = Some (VStr ''string''),
         options = Some (VList [VStr ''A'', VStr ''B''])\<rparr>
     = Inr (VDict [(''@base'', VStr ''xs:string''),
              (''xs:enumeration'', VList [VDict [(''@value'', VStr ''A'')], VDict [(''@value'', VStr ''B'')]])])
   \<and> \<not> py_eq
        (VDict [(''@base'', VStr ''xs:string''),
              (''xs:enumeration'', VList [VDict [(''@value'', VStr ''A'')], VDict [(''@value'', VStr ''B'')]])])
        (VDict [(''@base'', VStr ''xs:string''),
              (''enumeration'', VList [VDict [(''@value'', VStr ''A'')], VDict [(''@value'', VStr ''B'')]])])
   \<and> Restriction_parse sample_rt Restriction_default
        (VDict [(''@base'', VStr ''xs:string''), (''pattern'', VDict [(''@value'', VStr ''[A-Z]+'')])])
     = Inr \<lparr>type = Some (VStr ''pattern''), base = Some (VStr ''string''),
            options = Some (VStr ''[A-Z]+'')\<rparr>
   \<and> Restriction_asdict sample_rt
        \<lparr>type = Some (VStr ''pattern''), base = Some (VStr ''string''),
         options = Some (VStr ''[A-Z]+'')\<rparr>
     = Inr (VDict [(''@base'', VStr ''xs:string''),
              (''xs:pattern'', VList [VDict [(''@value'', VStr ''[A-Z]+'')]])])
   \<and> \<not> py_eq
        (VDict [(''@base'', VStr ''xs:string''),
              (''xs:pattern'', VList [VDict [(''@value'', VStr ''[A-Z]+'')]])])
        (VDict [(''@base'', VStr ''xs:string''), (''pattern'', VDict [(''@value'', VStr ''[A-Z]+'')])])
   \<and> Restriction_parse sample_rt Restriction_default
        (VDict [(''@base'', VStr ''xs:double''), (''minInclusive'', VDict [(''@value'', VStr ''0'')])])
     = Inl AttributeError
   \<and> Restriction_parse sample_rt Restriction_default
        (VDict [(''@base'', VStr ''xs:string''), (''minLength'', VDict [(''@value'', VStr ''3'')])])
     = Inl AttributeError"
  by (simp add: Restriction_parse_def Restriction_default_def parse_key_def subscript_def
        slice_from3_def py_iter_def Restriction_asdict_def enumeration_entry_def suffix_of_def
        slice_def)

text \<open>
  C10. A candidate that is false in a condition and is not equal to \<^verbatim>\<open>0\<close> (\<^verbatim>\<open>None\<close>, the
  empty string, an empty sequence) never matches, whatever the restriction; the
  restriction is left as it was. A candidate equal to \<^verbatim>\<open>0\<close> passes the guard and gets
  the result of the branch for the restriction's type.
\<close>

theorem Restriction_eq_falsy:
  "(\<not> truthy v \<and> \<not> py_eq v (VInt 0) \<longrightarrow> Restriction_eq rt r v = Inr (False, r))
   \<and> (py_eq v (VInt 0) \<longrightarrow> Restriction_eq rt r v = match_by_type rt r v)"
  by (simp add: Restriction_eq_def)

text \<open>The pattern \<^verbatim>\<open>.*\<close> matches the empty string and the length constraint \<^verbatim>\<open>==0\<close> holds
  of the empty tuple, yet neither candidate matches; the integer \<^verbatim>\<open>0\<close> is compared with
  the bound.\<close>

theorem Restriction_eq_falsy_witness:
  "Restriction_eq sample_rt
      \<lparr>type = Some (VStr ''pattern''), base = Some (VStr ''string''), options = Some (VStr ''.*'')\<rparr>
      (VStr [])
     = Inr (False,
        \<lparr>type = Some (VStr ''pattern''), base = Some (VStr ''string''), options = Some (VStr ''.*'')\<rparr>)
   \<and> match_by_type sample_rt
      \<lparr>type = Some (VStr ''pattern''), base = Some (VStr ''string''), options = Some (VStr ''.*'')\<rparr>
      (VStr [])
     = Inr (True,
        \<lparr>type = Some (VStr ''pattern''), base = Some (VStr ''string''), options = Some (VStr ''.*'')\<rparr>)
   \<and> Restriction_eq sample_rt
      \<lparr>type = Some (VStr ''length''), base = Some (VStr ''string''), options = Some (VList [VStr ''==0''])\<rparr>
      (VTuple [])
     = Inr (False,
        \<lparr>type = Some (VStr ''length''), base = Some (VStr ''string''), options = Some (VList [VStr ''==0''])\<rparr>)
   \<and> match_by_type sample_rt
      \<lparr>type = Some (VStr ''length''), base = Some (VStr ''string''), options = Some (VList [VStr ''==0''])\<rparr>
      (VTuple [])
     = Inr (True,
        \<lparr>type = Some (VStr ''length''), base = Some (VStr ''string''), options = Some (VList [VStr ''==0''])\<rparr>)
   \<and> Restriction_eq sample_rt
      \<lparr>type = Some (VStr ''bounds''), base = Some (VStr ''integer''),
       options = Some (VDict [(''minInclusive'', VInt 0)])\<rparr>
      (VInt 0)
     = Inr (True,
        \<lparr>type = Some (VStr ''bounds''), base = Some (VStr ''integer''),
         options = Some (VDict [(''minInclusive'', VInt 0)])\<rparr>)"
  using Restriction_eq_falsy [of "VStr []" sample_rt
      "\<lparr>type = Some (VStr ''pattern''), base = Some (VStr ''string''), options = Some (VStr ''.*'')\<rparr>"]
    Restriction_eq_falsy [of "VTuple []" sample_rt
      "\<lparr>type = Some (VStr ''length''), base = Some (VStr ''string''), options = Some (VList [VStr ''==0''])\<rparr>"]
    Restriction_eq_falsy [of "VInt 0" sample_rt
      "\<lparr>type = Some (VStr ''bounds''), base = Some (VStr ''integer''),
        options = Some (VDict [(''minInclusive'', VInt 0)])\<rparr>"]
  by (simp add: match_by_type_def sample_rt_def sample_fullmatch_def sample_eval_def py_iter_def
        length_step_def py_len_def str_nat.simps bounds_step_def cmp_rat_def)

section \<open>Properties of facet evaluation\<close>

text \<open>
  C1 at two inputs. \<^verbatim>\<open>PartOf(relation="IfcRelVoidsElement")\<close> called on any element:
  none of the four branches runs, \<^verbatim>\<open>is_pass\<close> is never assigned, and the \<^verbatim>\<open>return\<close>
  that reads it raises UnboundLocalError. \<^verbatim>\<open>Material(value="concrete")\<close> called on an
  element whose material is a single \<^verbatim>\<open>IfcMaterialLayer\<close>: none of the five branches
  assigns \<^verbatim>\<open>values\<close>, and the loop over it raises UnboundLocalError. Neither call
  returns a Result.
\<close>

theorem facet_call_raises:
  "facet_call sample_rt
     (PartOf_init (PVal VNone) (PVal (VStr ''IfcRelVoidsElement'')) (PVal VNone) (PVal VNone)
        (PVal VNone))
     bare_wall = Inl UnboundLocalError
   \<and> facet_call sample_rt
     (Material_init (PVal (VStr ''concrete'')) (PVal VNone) (PVal VNone) (PVal VNone) (PVal VNone))
     (bare_wall\<lparr>get_material := Some (OtherMaterial ''IfcMaterialLayer'')\<rparr>)
       = Inl UnboundLocalError"
  by (simp add: monad_defs call_defs PartOf_init_def PartOf_check_def Material_init_def
        Material_check_def material_values_def)

text \<open>
  C3, as the specification states it, for an Entity facet: \<^verbatim>\<open>Entity().parse\<close> of a
  fragment with \<^verbatim>\<open>@minOccurs\<close> 0 and \<^verbatim>\<open>@maxOccurs\<close> 1 binds both attributes, and the
  facet still fails an \<^verbatim>\<open>IfcSlab\<close> with the reason \<^verbatim>\<open>NAME\<close>: \<^verbatim>\<open>Entity.__call__\<close> reads
  neither attribute.
\<close>

theorem optional_Entity_counterexample:
  "Facet_parse sample_rt Entity_default (VDict [(''@minOccurs'', VInt 0), (''@maxOccurs'', VInt 1)])
     = Inr (entity_with_occurs (VInt 0) (VInt 1))
   \<and> facet_call sample_rt (entity_with_occurs (VInt 0) (VInt 1)) bare_slab
     = Inr (\<lparr>result_class = Entity, is_pass = False,
             reason = VDict [(''type'', VStr ''NAME''), (''actual'', VStr ''IFCSLAB'')]\<rparr>,
            entity_with_occurs (VInt 0) (VInt 1))"
  by (simp add: Facet_parse_def parse_item_def Entity_default_def Entity_init_def
        entity_with_occurs_def monad_defs call_defs Entity_call_def sample_defs upper_def
        upper_char_def)

text \<open>
  C3, amended. For a facet of any class but Entity whose \<^verbatim>\<open>minOccurs\<close> is a plain
  value equal to \<^verbatim>\<open>0\<close> and whose \<^verbatim>\<open>maxOccurs\<close> is a plain value not equal to \<^verbatim>\<open>0\<close>,
  the call returns a passing Result with no reason and leaves the facet as it was,
  whatever the element is: the result does not depend on \<open>e\<close>, and no exception is
  raised.
\<close>

theorem optional_facet_passes:
  assumes "cls f \<noteq> Entity"
    and "map_of (attrs f) ''minOccurs'' = Some (PVal mn)" and "py_eq (VInt 0) mn"
    and "map_of (attrs f) ''maxOccurs'' = Some (PVal mx)" and "\<not> py_eq (VInt 0) mx"
  shows "facet_call rt f e
           = Inr (\<lparr>result_class = cls f, is_pass = True, reason = VNone\<rparr>, f)"
proof -
  obtain check where run: "facet_run rt (cls f) e = with_cardinality rt (cls f) check"
    using facet_run_cardinality [OF assms(1)] by blast
  have "is_optional rt (attrs f) = Inr (True, attrs f)"
    using assms by (simp add: is_optional_PVal)
  then show ?thesis
    by (simp add: facet_call_def run with_cardinality_optional)
qed

text \<open>
  The hypotheses at \<^verbatim>\<open>Attribute(name="Name", minOccurs=0, maxOccurs="unbounded")\<close> and a
  wall without a name; with \<^verbatim>\<open>minOccurs=1\<close> the same element fails.
\<close>

theorem optional_facet_passes_witness:
  "facet_call sample_rt (name_required (VInt 0) (VStr ''unbounded'')) bare_wall
     = Inr (\<lparr>result_class = Attribute, is_pass = True, reason = VNone\<rparr>,
            name_required (VInt 0) (VStr ''unbounded''))
   \<and> facet_call sample_rt (name_required (VInt 1) (VStr ''unbounded'')) bare_wall
     = Inr (\<lparr>result_class = Attribute, is_pass = False,
             reason = VDict [(''type'', VStr ''FALSEY''), (''actual'', VNone)]\<rparr>,
            name_required (VInt 1) (VStr ''unbounded''))"
  using optional_facet_passes [of "name_required (VInt 0) (VStr ''unbounded'')" "VInt 0"
      "VStr ''unbounded''" sample_rt bare_wall]
  by (simp add: name_required_def monad_defs call_defs attribute_defs sample_defs)

text \<open>
  C2, as the specification states it, for an Entity facet: with \<^verbatim>\<open>maxOccurs\<close> bound
  to 0 by \<^verbatim>\<open>parse\<close> the facet passes an \<^verbatim>\<open>IfcWall\<close> with no reason, exactly as it does with
  \<^verbatim>\<open>maxOccurs\<close> 1: the outcome is not inverted and the reason is not \<^verbatim>\<open>PROHIBITED\<close>.
\<close>

theorem prohibited_Entity_counterexample:
  "Facet_parse sample_rt Entity_default (VDict [(''@minOccurs'', VInt 1), (''@maxOccurs'', VInt 0)])
     = Inr (entity_with_occurs (VInt 1) (VInt 0))
   \<and> facet_call sample_rt (entity_with_occurs (VInt 1) (VInt 0)) bare_wall
     = Inr (\<lparr>result_class = Entity, is_pass = True, reason = VNone\<rparr>,
            entity_with_occurs (VInt 1) (VInt 0))
   \<and> facet_call sample_rt (entity_with_occurs (VInt 1) (VInt 1)) bare_wall
     = Inr (\<lparr>result_class = Entity, is_pass = True, reason = VNone\<rparr>,
            entity_with_occurs (VInt 1) (VInt 1))"
  by (simp add: Facet_parse_def parse_item_def Entity_default_def Entity_init_def
        entity_with_occurs_def monad_defs call_defs Entity_call_def sample_defs upper_def
        upper_char_def)

text \<open>
  C2, amended. For a facet of any class but Entity whose \<^verbatim>\<open>minOccurs\<close> and
  \<^verbatim>\<open>maxOccurs\<close> are plain values, \<^verbatim>\<open>maxOccurs\<close> equal to \<^verbatim>\<open>0\<close>: if the call on an element
  returns a Result \<open>r\<close>, then the same facet with \<^verbatim>\<open>minOccurs\<close> and \<^verbatim>\<open>maxOccurs\<close> set
  to values other than \<^verbatim>\<open>0\<close> (the facet as a plain requirement) returns on that
  element too, \<open>r\<close> passes exactly if that result fails, and the reason of \<open>r\<close> is
  \<^verbatim>\<open>{"type": "PROHIBITED"}\<close>.
\<close>

theorem prohibited_inverts:
  assumes ne: "cls f \<noteq> Entity"
    and mn: "map_of (attrs f) ''minOccurs'' = Some (PVal mn)"
    and mx: "map_of (attrs f) ''maxOccurs'' = Some (PVal mx)" and zero: "py_eq (VInt 0) mx"
    and mn': "\<not> py_eq (VInt 0) mn'" and mx': "\<not> py_eq (VInt 0) mx'"
    and call: "facet_call rt f e = Inr (r, g)"
  shows "\<exists>r' g'.
           facet_call rt
             (f\<lparr>attrs := AList.update ''minOccurs'' (PVal mn')
                            (AList.update ''maxOccurs'' (PVal mx') (attrs f))\<rparr>) e = Inr (r', g')
           \<and> is_pass r = (\<not> is_pass r') \<and> reason r = reason1 ''PROHIBITED''"
proof -
  define s where "s = attrs f"
  define t where "t = AList.update ''minOccurs'' (PVal mn') (AList.update ''maxOccurs'' (PVal mx') s)"
  obtain check where run: "facet_run rt (cls f) e = with_cardinality rt (cls f) check"
    and simc: "\<And>R N. honours rt R N \<Longrightarrow> check_names \<subseteq> N \<Longrightarrow> sim R check"
    using facet_run_cardinality [OF ne] by blast
  have os: "is_optional rt s = Inr (False, s)"
    using mn mx zero by (simp add: is_optional_PVal s_def)
  from call obtain s' where ws: "with_cardinality rt (cls f) check s = Inr (r, s')"
    by (auto simp: facet_call_def run s_def split: sum.splits)
  from with_cardinality_required [OF os ws] obtain passed rs s2 prohibited where
    cs: "check s = Inr ((Some passed, rs), s2)"
    and es: "eq_attr rt ''maxOccurs'' (VInt 0) s2 = Inr (prohibited, s')"
    and r: "r = (if prohibited
                 then \<lparr>result_class = cls f, is_pass = \<not> passed, reason = reason1 ''PROHIBITED''\<rparr>
                 else \<lparr>result_class = cls f, is_pass = passed, reason = rs\<rparr>)"
    by blast
  have "map_of s2 ''maxOccurs'' = Some (PVal mx)"
    using simc mx [folded s_def] cs by (rule check_keeps_maxOccurs)
  with es zero have prohibited
    by (simp add: eq_attr_PVal)
  with r have r1: "is_pass r = (\<not> passed)" "reason r = reason1 ''PROHIBITED''"
    by simp_all
  have tmn: "map_of t ''minOccurs'' = Some (PVal mn')"
    and tmx: "map_of t ''maxOccurs'' = Some (PVal mx')"
    by (simp_all add: t_def update_conv')
  have ot: "is_optional rt t = Inr (False, t)"
    using tmn tmx mn' by (simp add: is_optional_PVal)
  have st: "same_but_cardinality s t"
    by (simp add: same_but_cardinality_def t_def update_conv')
  have "sim same_but_cardinality check"
    by (rule simc [OF honours_frame]) simp
  with st have "rel_sum (=) (rel_prod (=) same_but_cardinality) (check s) (check t)"
    by (simp add: sim_def)
  with cs obtain t2 where ct: "check t = Inr ((Some passed, rs), t2)"
    by (cases "check t") (auto simp: rel_prod.simps)
  have "map_of t2 ''maxOccurs'' = Some (PVal mx')"
    using simc tmx ct by (rule check_keeps_maxOccurs)
  then have et: "eq_attr rt ''maxOccurs'' (VInt 0) t2 = Inr (False, t2)"
    using mx' by (simp add: eq_attr_PVal)
  have "with_cardinality rt (cls f) check t
          = Inr (\<lparr>result_class = cls f, is_pass = passed, reason = rs\<rparr>, t2)"
    by (simp add: with_cardinality_def bnd_def ret_def ot ct et)
  then have "facet_call rt (f\<lparr>attrs := t\<rparr>) e
          = Inr (\<lparr>result_class = cls f, is_pass = passed, reason = rs\<rparr>, f\<lparr>attrs := t2\<rparr>)"
    by (simp add: facet_call_def run)
  with r1 show ?thesis
    by (simp add: t_def s_def)
qed

text \<open>
  The hypotheses at \<^verbatim>\<open>Attribute(name="Name", minOccurs=0, maxOccurs=0)\<close> and a wall
  without a name: the prohibited attribute is absent, so the facet passes, and the
  requirement \<^verbatim>\<open>Attribute(name="Name", minOccurs=1, maxOccurs=1)\<close> fails.
\<close>

theorem prohibited_inverts_witness:
  "facet_call sample_rt (name_required (VInt 0) (VInt 0)) bare_wall
     = Inr (\<lparr>result_class = Attribute, is_pass = True,
             reason = VDict [(''type'', VStr ''PROHIBITED'')]\<rparr>,
            name_required (VInt 0) (VInt 0))
   \<and> (\<exists>r' g'. facet_call sample_rt (name_required (VInt 1) (VInt 1)) bare_wall = Inr (r', g')
        \<and> \<not> is_pass r')"
proof -
  have call: "facet_call sample_rt (name_required (VInt 0) (VInt 0)) bare_wall
     = Inr (\<lparr>result_class = Attribute, is_pass = True,
             reason = VDict [(''type'', VStr ''PROHIBITED'')]\<rparr>,
            name_required (VInt 0) (VInt 0))"
    by (simp add: name_required_def monad_defs call_defs attribute_defs sample_defs)
  have "\<exists>r' g'.
           facet_call sample_rt
             ((name_required (VInt 0) (VInt 0))
                \<lparr>attrs := AList.update ''minOccurs'' (PVal (VInt 1))
                   (AList.update ''maxOccurs'' (PVal (VInt 1))
                      (attrs (name_required (VInt 0) (VInt 0))))\<rparr>) bare_wall = Inr (r', g')
           \<and> is_pass \<lparr>result_class = Attribute, is_pass = True,
                reason = VDict [(''type'', VStr ''PROHIBITED'')]\<rparr> = (\<not> is_pass r')
           \<and> reason \<lparr>result_class = Attribute, is_pass = True,
                reason = VDict [(''type'', VStr ''PROHIBITED'')]\<rparr> = reason1 ''PROHIBITED''"
    by (rule prohibited_inverts [where mn = "VInt 0" and mx = "VInt 0", OF _ _ _ _ _ _ call])
       (simp_all add: name_required_def Attribute_init_def)
  then obtain r' g' where
    "facet_call sample_rt (name_required (VInt 1) (VInt 1)) bare_wall = Inr (r', g')"
    and "\<not> is_pass r'"
    by (auto simp: name_required_def Attribute_init_def)
  with call show ?thesis
    by blast
qed

text \<open>
  C4 at \<^verbatim>\<open>Attribute(name="Elevation", value="-5")\<close> and a storey whose \<^verbatim>\<open>Elevation\<close> is
  the float \<^verbatim>\<open>-5.0\<close>: the candidate is the expected value itself, and the facet fails
  with the reason \<^verbatim>\<open>VALUE\<close>, since \<^verbatim>\<open>-5.0 < -5.0 * (1.0 - 1e-6)\<close>. The same facet and
  element with \<^verbatim>\<open>5\<close> for \<^verbatim>\<open>-5\<close> pass. A Property facet behaves the same way on a
  property of value \<^verbatim>\<open>-5.0\<close>. (Floats are rationals here; the two sides of the failing
  comparison are \<^verbatim>\<open>5e-6\<close> apart, far beyond any rounding.)
\<close>

theorem negative_value_fails:
  "facet_call sample_rt (elevation_is ''-5'') (storey_at (- 5))
     = Inr (\<lparr>result_class = Attribute, is_pass = False,
             reason = VDict [(''type'', VStr ''VALUE''), (''actual'', VFloat (- 5))]\<rparr>,
            elevation_is ''-5'')
   \<and> facet_call sample_rt (elevation_is ''5'') (storey_at 5)
     = Inr (\<lparr>result_class = Attribute, is_pass = True, reason = VNone\<rparr>, elevation_is ''5'')
   \<and> facet_call sample_rt (offset_is ''-5'') (wall_with_offset (- 5))
     = Inr (\<lparr>result_class = Property, is_pass = False,
             reason = VDict [(''type'', VStr ''VALUE''), (''actual'', VFloat (- 5))]\<rparr>,
            offset_is ''-5'')
   \<and> facet_call sample_rt (offset_is ''5'') (wall_with_offset 5)
     = Inr (\<lparr>result_class = Property, is_pass = True, reason = VNone\<rparr>, offset_is ''5'')"
  by (simp add: elevation_is_def storey_at_def offset_is_def wall_with_offset_def
        monad_defs call_defs attribute_defs property_defs cast_defs sample_defs)

text \<open>
  C8, as the specification states it: calling
  \<^verbatim>\<open>Attribute(name="IsExternal", value=Restriction(["TRUE"], "enumeration", "bool"))\<close>
  on a wall whose \<^verbatim>\<open>IsExternal\<close> is \<^verbatim>\<open>True\<close> passes and leaves the facet with the
  options \<^verbatim>\<open>["true"]\<close>: \<^verbatim>\<open>Restriction.__eq__\<close> assigns \<^verbatim>\<open>self.options\<close>.
\<close>

theorem evaluation_mutates_counterexample:
  "facet_call sample_rt (is_external [VStr ''TRUE'']) external_wall
     = Inr (\<lparr>result_class = Attribute, is_pass = True, reason = VNone\<rparr>,
            is_external [VStr ''true''])
   \<and> is_external [VStr ''true''] \<noteq> is_external [VStr ''TRUE'']
   \<and> Restriction_eq sample_rt
        \<lparr>type = Some (VStr ''enumeration''), base = Some (VStr ''bool''),
         options = Some (VList [VStr ''TRUE''])\<rparr> (VBool True)
     = Inr (True, \<lparr>type = Some (VStr ''enumeration''), base = Some (VStr ''bool''),
                   options = Some (VList [VStr ''true''])\<rparr>)"
  by (simp add: is_external_def monad_defs call_defs attribute_defs sample_defs
        Restriction_eq_def match_by_type_def lower_all_def py_iter_def py_str_def py_in_def
        lower_def lower_char_def)

text \<open>
  C8, amended. If the call of a facet on an element returns, then the facet it
  leaves is the facet it found but for Restrictions that were lowered: the class, the
  names of the attributes, every plain value, and the type and base of every
  Restriction are unchanged, and the options of a Restriction are unchanged or, for
  an enumeration with base \<^verbatim>\<open>bool\<close>, replaced by the list of their lower-case forms. A
  second call on the same element returns the same Result and leaves the facet as
  the first call left it.
\<close>

theorem evaluation_lowers_only:
  assumes "facet_call rt f e = Inr (r, g)"
  shows "facet_le f g \<and> facet_call rt g e = Inr (r, g)"
proof -
  from assms obtain s' where run: "facet_run rt (cls f) e (attrs f) = Inr (r, s')"
    and g: "g = f\<lparr>attrs := s'\<rparr>"
    by (auto simp: facet_call_def split: sum.splits)
  have le: "keyed (param_rel restr_le) (attrs f) s'"
    using settles_facet_run run by (rule settles_le)
  have "facet_run rt (cls f) e s' = Inr (r, s')"
    using settles_facet_run run attrs_le_refl by (rule settles_again)
  with le show ?thesis
    by (simp add: facet_le_def g facet_call_def)
qed

text \<open>
  The hypothesis at the facet and element of the counterexample: the facet left has
  the options in lower case, and the second call passes again and leaves them so.
\<close>

theorem evaluation_lowers_only_witness:
  "facet_le (is_external [VStr ''TRUE'']) (is_external [VStr ''true''])
   \<and> facet_call sample_rt (is_external [VStr ''true'']) external_wall
       = Inr (\<lparr>result_class = Attribute, is_pass = True, reason = VNone\<rparr>,
              is_external [VStr ''true''])"
proof -
  have "facet_call sample_rt (is_external [VStr ''TRUE'']) external_wall
     = Inr (\<lparr>result_class = Attribute, is_pass = True, reason = VNone\<rparr>,
            is_external [VStr ''true''])"
    by (simp add: is_external_def monad_defs call_defs attribute_defs sample_defs
        Restriction_eq_def match_by_type_def lower_all_def py_iter_def py_str_def py_in_def
        lower_def lower_char_def)
  then show ?thesis
    by (rule evaluation_lowers_only)
qed

text \<open>
  C9 at \<^verbatim>\<open>Classification(value="Pr_20").filter(ifc_file, [wall])\<close>, for any file: the
  method of the class is \<^verbatim>\<open>pass\<close> and returns \<^verbatim>\<open>None\<close>, not a sequence of elements.
\<close>

theorem Classification_filter_returns_None:
  "facet_filter sample_rt file
     (Classification_init (PVal (VStr ''Pr_20'')) (PVal VNone) (PVal VNone) (PVal VNone)
        (PVal VNone) (PVal VNone))
     [bare_wall]
   = Inr (None, Classification_init (PVal (VStr ''Pr_20'')) (PVal VNone) (PVal VNone) (PVal VNone)
        (PVal VNone) (PVal VNone))"
  by (simp add: facet_filter_def Classification_init_def)

end
